theory Spec2Isabelle
  imports Main "HOL-Library.List_Lexorder" "HOL-Library.Char_ord" "HOL-Library.Sublist"
begin

section \<open>The remote-build command of snapcraft\<close>

text \<open>
  A shallow embedding of \<^verbatim>\<open>src/snapcraft/commands/remote.py\<close>: the methods
  \<^verbatim>\<open>_validate\<close>, \<^verbatim>\<open>_validate_single_artifact_per_build_on\<close>,
  \<^verbatim>\<open>_get_archs\<close>, \<^verbatim>\<open>_monitor_and_complete\<close> and \<^verbatim>\<open>_run\<close> of
  \<^verbatim>\<open>RemoteBuildCommand\<close>.

  Every method is a function that returns the list of effects it performed, in order,
  together with either the exception it raised (\<open>Inl\<close>) or the value it returned
  (\<open>Inr\<close>). Effects are the calls to \<^verbatim>\<open>emit\<close>, to \<^verbatim>\<open>confirm_with_user\<close>,
  to \<^verbatim>\<open>time.sleep\<close> and to the remote-build service.
\<close>

subsection \<open>Data\<close>

text \<open>
  Modelled from the spec: \<^verbatim>\<open>BuildState\<close> of craft_application.launchpad.models is not
  part of the sources. The data model lists the values PENDING, UPLOADING, RUNNING,
  SUCCESS, FAILED and CANCELLED (any other stopped state), and says that
  \<^verbatim>\<open>is_running\<close> is true only for RUNNING.
\<close>

datatype build_state = PENDING | UPLOADING | RUNNING | SUCCESS | FAILED | CANCELLED

definition is_running :: "build_state \<Rightarrow> bool" where
  "is_running s = (s = RUNNING)"

text \<open>
  \<^verbatim>\<open>BuildInfo\<close> of craft_application: the source reads \<^verbatim>\<open>build_on\<close> and
  \<^verbatim>\<open>build_for\<close>; \<^verbatim>\<open>platform\<close> is the name of the platform entry the pair
  comes from.
\<close>

record build_info =
  platform :: string
  build_on :: string
  build_for :: string

text \<open>
  The keyword arguments of \<^verbatim>\<open>craft_application.errors.RemoteBuildError\<close>, as the source
  passes them; \<open>None\<close> is an argument that was not given.
\<close>

record craft_error =
  message :: string
  details :: "string option"
  resolution :: "string option"
  doc_slug :: "string option"
  reportable :: "bool option"
  retcode :: "int option"

text \<open>
  The exception classes the source names in a \<^verbatim>\<open>raise\<close> or an \<^verbatim>\<open>except\<close>
  clause. A constructor stands for the class and its subclasses.
  \<open>OtherException\<close> is any other subclass of \<^verbatim>\<open>Exception\<close>,
  \<open>OtherBaseException\<close> any other exception that is not one (\<^verbatim>\<open>SystemExit\<close>).
  The string is the identity of the exception object.
\<close>

datatype exn =
    RemoteBuildError craft_error
  | LaunchpadError string
  | Conflict string
  | TimeoutError string
  | KeyboardInterrupt
  | EmptyBuildPlanError
  | OtherException string
  | OtherBaseException string

fun is_RemoteBuildError :: "exn \<Rightarrow> bool" where
  "is_RemoteBuildError (RemoteBuildError _) = True"
| "is_RemoteBuildError _ = False"

fun is_LaunchpadError :: "exn \<Rightarrow> bool" where
  "is_LaunchpadError (LaunchpadError _) = True"
| "is_LaunchpadError _ = False"

fun is_Conflict :: "exn \<Rightarrow> bool" where
  "is_Conflict (Conflict _) = True"
| "is_Conflict _ = False"

fun is_TimeoutError :: "exn \<Rightarrow> bool" where
  "is_TimeoutError (TimeoutError _) = True"
| "is_TimeoutError _ = False"

fun is_Exception :: "exn \<Rightarrow> bool" where
  "is_Exception KeyboardInterrupt = False"
| "is_Exception (OtherBaseException _) = False"
| "is_Exception _ = True"

text \<open>The exit codes of \<^verbatim>\<open>os\<close> on POSIX (sysexits.h).\<close>

definition EX_OK :: int where "EX_OK = 0"
definition EX_TEMPFAIL :: int where "EX_TEMPFAIL = 75"
definition EX_NOPERM :: int where "EX_NOPERM = 77"
definition EX_CONFIG :: int where "EX_CONFIG = 78"

text \<open>
  A \<^verbatim>\<open>Mapping[str, BuildState]\<close>, as the list of its items in iteration order. The keys
  of a dict are distinct.
\<close>

type_synonym snapshot = "(string \<times> build_state) list"

text \<open>A \<^verbatim>\<open>Build\<close> is opaque: the source only counts the builds.\<close>

type_synonym build = string

datatype event =
    EmitProgress string bool
  | EmitMessage string
  | EmitDebug string
  | EmitTrace string
  | Sleep nat
  | ConfirmWithUser string bool
  | IsProjectPrivate
  | SetProject string
  | SetTimeout int
  | StartBuilds string "string list"
  | ResumeBuilds string
  | MonitorBuilds
  | FetchLogs string
  | FetchArtifacts string
  | CancelBuilds
  | Cleanup

text \<open>
  The parsed arguments the source reads. An option that is absent (\<^verbatim>\<open>None\<close>) where
  the source expects a list is the empty list: the source only tests such a value for
  truth or iterates over \<^verbatim>\<open>value or []\<close>.
\<close>

record parsed_args =
  project :: "string option"
  recover :: bool
  launchpad_accept_public_upload :: bool
  launchpad_timeout :: int
  remote_build_build_fors :: "string list"

text \<open>
  Everything the command reads from outside itself.

  Modelled from the spec: the remote-build service
  (\<^verbatim>\<open>snapcraft.services.remotebuild\<close>, not part of the sources). Its interface is the
  Build Farm Client of the spec: \<^verbatim>\<open>start_builds\<close> and \<^verbatim>\<open>resume_builds\<close> return a
  collection of builds or raise; \<^verbatim>\<open>monitor_builds\<close> is a lazy sequence of snapshots
  that ends normally (\<open>None\<close>) or by raising (\<open>Some e\<close>; a timeout, an interrupt, or
  anything else); \<^verbatim>\<open>is_project_private\<close>, \<^verbatim>\<open>set_project\<close>,
  \<^verbatim>\<open>set_timeout\<close>, \<^verbatim>\<open>fetch_logs\<close>, \<^verbatim>\<open>fetch_artifacts\<close>,
  \<^verbatim>\<open>cancel_builds\<close> and \<^verbatim>\<open>cleanup\<close> return normally.

  The other fields are the project, the host, the operator and the formatting
  functions of Python and craft_application (\<^verbatim>\<open>repr\<close>, \<^verbatim>\<open>str\<close>,
  \<^verbatim>\<open>humanize_list\<close>, \<^verbatim>\<open>Path.name\<close>, \<^verbatim>\<open>get_build_id\<close>), taken as they are.
\<close>

record env =
  app_name :: string
  project_name :: string
  platforms :: bool
  architectures_in_yaml :: bool
  build_plan :: "build_info list"
  project_dir :: string
  cwd :: string
  supported_archs :: "string list"
  host_arch :: string
  sudo_user :: "string option"
  geteuid :: int
  confirm_with_user :: "string \<Rightarrow> bool \<Rightarrow> bool"
  get_build_id :: "string \<Rightarrow> string \<Rightarrow> string \<Rightarrow> string"
  is_project_private :: bool
  start_builds :: "string \<Rightarrow> string list \<Rightarrow> exn + build list"
  resume_builds :: "string \<Rightarrow> exn + build list"
  monitor_builds :: "snapshot list \<times> exn option"
  fetch_logs :: "string \<Rightarrow> (string \<times> string option) list"
  fetch_artifacts :: "string \<Rightarrow> string list"
  py_repr :: "string \<Rightarrow> string"
  str_int :: "int \<Rightarrow> string"
  str_build_plan :: "build_info list \<Rightarrow> string"
  humanize_list :: "string list \<Rightarrow> string \<Rightarrow> string"
  path_name :: "string \<Rightarrow> string"

text \<open>Truth of a \<^verbatim>\<open>str | None\<close>: neither \<^verbatim>\<open>None\<close> nor empty.\<close>

fun truthy :: "string option \<Rightarrow> bool" where
  "truthy None = False"
| "truthy (Some s) = (s \<noteq> [])"

text \<open>\<^verbatim>\<open>sep.join(xs)\<close>\<close>

fun join :: "string \<Rightarrow> string list \<Rightarrow> string" where
  "join sep [] = []"
| "join sep [x] = x"
| "join sep (x # y # ys) = x @ sep @ join sep (y # ys)"

subsection \<open>Resolving the architectures: \<^verbatim>\<open>_get_archs\<close>\<close>

text \<open>
  Modelled from the spec: \<^verbatim>\<open>filter_plan\<close> of craft_application is not part of the
  sources. The source calls it with \<^verbatim>\<open>platform=None\<close> and \<^verbatim>\<open>host_arch=None\<close>,
  so that only the build-for filter applies: it selects the declared targets whose
  build-for matches, in the order of the plan.
\<close>

definition filter_plan :: "build_info list \<Rightarrow> string \<Rightarrow> build_info list" where
  "filter_plan plan bf = filter (\<lambda>info. build_for info = bf) plan"

text \<open>
  The loop over \<^verbatim>\<open>build_fors\<close> in filter mode. \<open>archs\<close> is the list accumulated so
  far; the test \<^verbatim>\<open>if not archs\<close> is inside the loop body, after the
  \<^verbatim>\<open>extend\<close>.
\<close>

fun filter_loop :: "build_info list \<Rightarrow> string list \<Rightarrow> string list \<Rightarrow> exn + string list" where
  "filter_loop plan archs [] = Inr archs"
| "filter_loop plan archs (bf # rest) =
     (let archs' = archs @ map build_for (filter_plan plan bf)
      in if archs' = [] then Inl EmptyBuildPlanError else filter_loop plan archs' rest)"

definition archs_debug :: "env \<Rightarrow> string list \<Rightarrow> event" where
  "archs_debug env archs =
     EmitDebug (''Architectures to build for: '' @ humanize_list env archs ''and'')"

definition get_archs :: "env \<Rightarrow> string list \<Rightarrow> event list \<times> (exn + string list)" where
  "get_archs env build_fors =
     (if platforms env \<or> architectures_in_yaml env then
        (if build_fors \<noteq> [] then
           (case filter_loop (build_plan env) [] build_fors of
              Inl e \<Rightarrow>
                ([EmitDebug ''Filtering the build plan using the '--build-for' argument.''], Inl e)
            | Inr archs \<Rightarrow>
                ([EmitDebug ''Filtering the build plan using the '--build-for' argument.'',
                  archs_debug env archs], Inr archs))
         else
           ([EmitDebug ''Using the project's build plan'',
             archs_debug env (map build_for (build_plan env))],
            Inr (map build_for (build_plan env))))
      else if build_fors \<noteq> [] then
        ([EmitDebug ''Using '--build-for' as the list of architectures to build for'',
          archs_debug env build_fors], Inr build_fors)
      else
        ([EmitDebug (''Using host architecture '' @ host_arch env @
            '' because no architectures were defined in the project or as a command-line argument.''),
          archs_debug env [host_arch env]], Inr [host_arch env]))"

text \<open>
  The accumulated filter matches of the spec: for each override entry, in order, the
  build-for values of the declared targets it selects.
\<close>

definition accumulated_matches :: "build_info list \<Rightarrow> string list \<Rightarrow> string list" where
  "accumulated_matches plan build_fors =
     concat (map (\<lambda>bf. map build_for (filter_plan plan bf)) build_fors)"

subsection \<open>Validation: \<^verbatim>\<open>_validate_single_artifact_per_build_on\<close> and \<^verbatim>\<open>_validate\<close>\<close>

text \<open>
  \<^verbatim>\<open>build_map.setdefault(k, []).append(v)\<close> on a dict kept as the list of its items: a
  known key keeps its place and gets \<open>v\<close> at the end of its list, a new key goes last.
\<close>

fun setdefault_append ::
  "(string \<times> string list) list \<Rightarrow> string \<Rightarrow> string \<Rightarrow> (string \<times> string list) list" where
  "setdefault_append [] k v = [(k, [v])]"
| "setdefault_append ((k', vs) # m) k v =
     (if k' = k then (k', vs @ [v]) # m else (k', vs) # setdefault_append m k v)"

definition build_map_of :: "build_info list \<Rightarrow> (string \<times> string list) list" where
  "build_map_of plan =
     foldl (\<lambda>m info. setdefault_append m (build_on info) (build_for info)) [] plan"

definition build_on_error_line :: "env \<Rightarrow> string \<times> string list \<Rightarrow> string" where
  "build_on_error_line env item =
     [CHR 0x0A] @ ''  - Building on '' @ py_repr env (fst item) @
     '' will create snaps for '' @ humanize_list env (snd item) ''and'' @ ''.''"

definition build_on_errors :: "env \<Rightarrow> build_info list \<Rightarrow> string list" where
  "build_on_errors env plan =
     map (build_on_error_line env) (filter (\<lambda>item. length (snd item) > 1) (build_map_of plan))"

definition conflict_error :: "string list \<Rightarrow> exn" where
  "conflict_error errs =
     RemoteBuildError \<lparr>
       message =
         ''Remote build does not support building multiple snaps on the same architecture:'' @
         concat errs,
       details = None,
       resolution =
         Some ''Ensure that only one snap will be created for each build-on architecture.'',
       doc_slug = Some ''/explanation/remote-build.html'',
       reportable = None,
       retcode = Some EX_CONFIG \<rparr>"

definition validate_single_artifact_per_build_on :: "env \<Rightarrow> exn + unit" where
  "validate_single_artifact_per_build_on env =
     (let errs = build_on_errors env (build_plan env)
      in if errs \<noteq> [] then Inl (conflict_error errs) else Inr ())"

text \<open>
  The grouping of the spec: the build-on values of the plan in the order of their first
  occurrence, each with the build-for values of all the targets that build on it.
\<close>

definition group_by_build_on :: "build_info list \<Rightarrow> (string \<times> string list) list" where
  "group_by_build_on plan =
     map (\<lambda>bo. (bo, map build_for (filter (\<lambda>info. build_on info = bo) plan)))
       (rev (remdups (rev (map build_on plan))))"

definition distinct_build_fors :: "build_info list \<Rightarrow> string \<Rightarrow> string set" where
  "distinct_build_fors plan bo =
     set (map build_for (filter (\<lambda>info. build_on info = bo) plan))"

definition unsupported_error :: "env \<Rightarrow> string \<Rightarrow> exn" where
  "unsupported_error env bf =
     RemoteBuildError \<lparr>
       message = ''Unsupported build-for architecture '' @ py_repr env bf @ ''.'',
       details = None,
       resolution =
         Some (''Use a supported debian architecture. Supported architectures are: '' @
               humanize_list env (supported_archs env) ''and''),
       doc_slug = Some ''/explanation/remote-build.html'',
       reportable = None,
       retcode = Some EX_CONFIG \<rparr>"

fun check_build_fors :: "env \<Rightarrow> string list \<Rightarrow> exn + unit" where
  "check_build_fors env [] = Inr ()"
| "check_build_fors env (bf # rest) =
     (if bf \<notin> set (supported_archs env @ [''all'']) then Inl (unsupported_error env bf)
      else check_build_fors env rest)"

definition confirmation_prompt :: string where
  "confirmation_prompt =
     ''All data sent to remote builders will be publicly available. '' @
     ''Are you sure you want to continue?''"

definition acknowledgement_error :: exn where
  "acknowledgement_error =
     RemoteBuildError \<lparr>
       message =
         ''Remote build needs explicit acknowledgement that data sent to build servers is public.'',
       details =
         Some ''In non-interactive runs, please use the option `--launchpad-accept-public-upload`.'',
       resolution = None,
       doc_slug = Some ''/explanation/remote-build.html'',
       reportable = Some False,
       retcode = Some EX_NOPERM \<rparr>"

text \<open>
  The condition of the acknowledgement test, with Python's short-circuit evaluation:
  the events are the calls that were made, the boolean is the value of the condition.
\<close>

definition needs_acknowledgement :: "env \<Rightarrow> parsed_args \<Rightarrow> event list \<times> bool" where
  "needs_acknowledgement env args =
     (if launchpad_accept_public_upload args then ([], False)
      else
        (let (evs, public) =
               (if \<not> truthy (project args) then ([], True)
                else ([IsProjectPrivate], \<not> is_project_private env))
         in if public
            then (evs @ [ConfirmWithUser confirmation_prompt False],
                  \<not> confirm_with_user env confirmation_prompt False)
            else (evs, False)))"

definition validate :: "env \<Rightarrow> parsed_args \<Rightarrow> event list \<times> (exn + unit)" where
  "validate env args =
     (let sudo_evs =
            (if truthy (sudo_user env) \<and> geteuid env = 0
             then [EmitProgress
                     ''Running with 'sudo' may cause permission errors and is discouraged.'' True,
                   Sleep 1]
             else []);
          (ack_evs, declined) = needs_acknowledgement env args
      in if declined then (sudo_evs @ ack_evs, Inl acknowledgement_error)
         else
           (case check_build_fors env (remote_build_build_fors args) of
              Inl e \<Rightarrow> (sudo_evs @ ack_evs, Inl e)
            | Inr _ \<Rightarrow> (sudo_evs @ ack_evs, validate_single_artifact_per_build_on env)))"

subsection \<open>Monitoring: \<^verbatim>\<open>_monitor_and_complete\<close>\<close>

record buckets =
  building :: "string set"
  succeeded :: "string set"
  uploading :: "string set"
  pending :: "string set"
  not_building :: "string set"

definition empty_buckets :: buckets where
  "empty_buckets =
     \<lparr> building = {}, succeeded = {}, uploading = {}, pending = {}, not_building = {} \<rparr>"

text \<open>The body of the loop over \<^verbatim>\<open>states.items()\<close>: the chain of tests, in its order.\<close>

definition add_arch :: "buckets \<Rightarrow> string \<times> build_state \<Rightarrow> buckets" where
  "add_arch b item =
     (let arch = fst item; build_state = snd item
      in if is_running build_state then b\<lparr> building := insert arch (building b) \<rparr>
         else if build_state = SUCCESS then b\<lparr> succeeded := insert arch (succeeded b) \<rparr>
         else if build_state = UPLOADING then b\<lparr> uploading := insert arch (uploading b) \<rparr>
         else if build_state = PENDING then b\<lparr> pending := insert arch (pending b) \<rparr>
         else b\<lparr> not_building := insert arch (not_building b) \<rparr>)"

definition classify :: "snapshot \<Rightarrow> buckets" where
  "classify states = foldl add_arch empty_buckets states"

definition progress_parts :: "buckets \<Rightarrow> string list" where
  "progress_parts b =
     (if not_building b \<noteq> {}
      then [''Stopped: '' @ join '','' (sorted_list_of_set (not_building b))] else []) @
     (if building b \<noteq> {}
      then [''Building: '' @ join '', '' (sorted_list_of_set (building b))] else []) @
     (if uploading b \<noteq> {}
      then [''Uploading: '' @ join '','' (sorted_list_of_set (uploading b))] else []) @
     (if succeeded b \<noteq> {}
      then [''Succeeded: '' @ join '', '' (sorted_list_of_set (succeeded b))] else []) @
     (if pending b \<noteq> {}
      then [''Pending: '' @ join '', '' (sorted_list_of_set (pending b))] else [])"

definition progress_line :: "snapshot \<Rightarrow> string" where
  "progress_line states = join ''; '' (progress_parts (classify states))"

text \<open>
  The five buckets in the order of the progress line, each with its label and the
  separator the source joins its architectures with.
\<close>

definition ordered_buckets :: "buckets \<Rightarrow> (string \<times> string \<times> string set) list" where
  "ordered_buckets b =
     [(''Stopped: '', '','', not_building b),
      (''Building: '', '', '', building b),
      (''Uploading: '', '','', uploading b),
      (''Succeeded: '', '', '', succeeded b),
      (''Pending: '', '', '', pending b)]"

definition render_bucket :: "string \<times> string \<times> string set \<Rightarrow> string" where
  "render_bucket t = fst t @ join (fst (snd t)) (sorted_list_of_set (snd (snd t)))"

definition bucket_sets :: "buckets \<Rightarrow> string set list" where
  "bucket_sets b = map (\<lambda>t. snd (snd t)) (ordered_buckets b)"

text \<open>
  The \<^verbatim>\<open>for states in builder.monitor_builds()\<close> loop over the snapshots the sequence
  yields: one progress line for each, and the variable \<^verbatim>\<open>states\<close> as the loop
  leaves it.
\<close>

fun monitor_loop :: "snapshot \<Rightarrow> snapshot list \<Rightarrow> event list \<times> snapshot" where
  "monitor_loop states [] = ([], states)"
| "monitor_loop states (s # rest) =
     (case monitor_loop s rest of
        (evs, final) \<Rightarrow> (EmitProgress (progress_line s) False # evs, final))"

definition resume_command :: "env \<Rightarrow> string option \<Rightarrow> string" where
  "resume_command env build_id =
     (case build_id of
        None \<Rightarrow> app_name env @ '' remote-build --recover''
      | Some b \<Rightarrow>
          if b \<noteq> [] then app_name env @ '' remote-build --recover --build-id='' @ b
          else app_name env @ '' remote-build --recover'')"

definition timeout_message :: "env \<Rightarrow> string option \<Rightarrow> string" where
  "timeout_message env build_id =
     ''Timed out waiting for build.'' @ [CHR 0x0A] @ ''To resume, run '' @
     py_repr env (resume_command env build_id)"

text \<open>The loop over the final states that reports the failed architectures.\<close>

fun report_failed :: "int \<Rightarrow> snapshot \<Rightarrow> event list \<times> int" where
  "report_failed return_code [] = ([], return_code)"
| "report_failed return_code (item # rest) =
     (if snd item = FAILED then
        (case report_failed 1 rest of
           (evs, rc) \<Rightarrow>
             (EmitProgress (''Build for architecture '' @ fst item @ '' failed.'') True # evs, rc))
      else report_failed return_code rest)"

definition some_paths :: "(string \<times> string option) list \<Rightarrow> string list" where
  "some_paths logs = concat (map (\<lambda>item. case snd item of None \<Rightarrow> [] | Some p \<Rightarrow> [p]) logs)"

definition completed_message :: "env \<Rightarrow> (string \<times> string option) list \<Rightarrow> string list \<Rightarrow> string" where
  "completed_message env logs artifacts =
     ''Build completed.'' @ [CHR 0x0A] @
     ''Log files: '' @ join '', '' (sort (map (path_name env) (some_paths logs))) @ [CHR 0x0A] @
     ''Artifacts: '' @ join '', '' (sort (map (path_name env) artifacts))"

text \<open>The part of \<^verbatim>\<open>_monitor_and_complete\<close> after the monitoring loop has ended normally.\<close>

definition complete :: "env \<Rightarrow> build list \<Rightarrow> snapshot \<Rightarrow> event list \<times> int" where
  "complete env builds states =
     (case report_failed 0 states of
        (failed_evs, rc1) \<Rightarrow>
          (let logs = fetch_logs env (cwd env);
               rc2 = (if logs = [] then 1 else rc1);
               artifacts = fetch_artifacts env (cwd env);
               rc3 = (if artifacts = [] then 1 else rc2)
           in (failed_evs @
               [EmitProgress (''Fetching '' @ str_int env (int (length builds)) @ '' build logs...'')
                  False,
                FetchLogs (cwd env)] @
               (if logs = []
                then [EmitProgress ''No log files downloaded from Launchpad.'' True] else []) @
               [EmitProgress ''Fetching build artifacts...'' False,
                FetchArtifacts (cwd env)] @
               (if artifacts = []
                then [EmitProgress ''No build artifacts downloaded from Launchpad.'' True]
                else []) @
               [EmitMessage (completed_message env logs artifacts)],
               rc3)))"

definition monitor_and_complete ::
  "env \<Rightarrow> string option \<Rightarrow> build list \<Rightarrow> event list \<times> (exn + int)" where
  "monitor_and_complete env build_id builds =
     (case monitor_loop [] (fst (monitor_builds env)) of
        (loop_evs, states) \<Rightarrow>
          (let evs = [EmitProgress ''Monitoring build'' False, MonitorBuilds] @ loop_evs
           in case snd (monitor_builds env) of
                Some e \<Rightarrow>
                  if is_TimeoutError e
                  then (evs @ [EmitMessage (timeout_message env build_id)], Inr 75)
                  else (evs, Inl e)
              | None \<Rightarrow>
                  (case complete env builds states of
                     (evs', rc) \<Rightarrow> (evs @ evs', Inr rc))))"

subsection \<open>The command: \<^verbatim>\<open>_run\<close>\<close>

text \<open>
  \<^verbatim>\<open>_run\<close> in three parts, in the order of the source: the statements before the
  submission, the submission (\<^verbatim>\<open>resume_builds\<close> or \<^verbatim>\<open>start_builds\<close> with its
  handlers), and the \<^verbatim>\<open>try\<close> statement around \<^verbatim>\<open>_monitor_and_complete\<close> with
  the final clean-up.
\<close>

definition run_prepare :: "env \<Rightarrow> parsed_args \<Rightarrow> event list \<times> (exn + string list \<times> string)" where
  "run_prepare env args =
     (let evs1 =
            (case project args of
               None \<Rightarrow> []
             | Some p \<Rightarrow> if p \<noteq> [] then [SetProject p] else []) @
            [EmitProgress
               ''remote-build is experimental and is subject to change. Use with caution.'' True,
             EmitDebug (''Build plan: '' @ str_build_plan env (build_plan env)),
             EmitTrace (''Project directory: '' @ project_dir env)]
      in case validate env args of
           (evs2, Inl e) \<Rightarrow> (evs1 @ evs2, Inl e)
         | (evs2, Inr _) \<Rightarrow>
             (case get_archs env (remote_build_build_fors args) of
                (evs3, Inl e) \<Rightarrow> (evs1 @ evs2 @ evs3, Inl e)
              | (evs3, Inr archs) \<Rightarrow>
                  (evs1 @ evs2 @ evs3 @
                   (if launchpad_timeout args \<noteq> 0
                    then [EmitDebug (''Setting timeout to '' @
                            str_int env (launchpad_timeout args) @ '' seconds''),
                          SetTimeout (launchpad_timeout args)]
                    else []),
                   Inr (archs,
                        get_build_id env (app_name env) (project_name env) (project_dir env)))))"

text \<open>
  The submission returns the builds (\<open>Inr (Inr builds)\<close>), makes \<^verbatim>\<open>_run\<close> return an
  exit code at once (\<open>Inr (Inl code)\<close>), or raises (\<open>Inl e\<close>).
\<close>

definition run_submit ::
  "env \<Rightarrow> parsed_args \<Rightarrow> string list \<Rightarrow> string \<Rightarrow> event list \<times> (exn + int + build list)" where
  "run_submit env args archs build_id =
     (if recover args then
        (let evs = [EmitProgress (''Recovering build '' @ build_id) False, ResumeBuilds build_id]
         in case resume_builds env build_id of
              Inl e \<Rightarrow> (evs, Inl e)
            | Inr builds \<Rightarrow> (evs, Inr (Inr builds)))
      else
        (let evs =
               [EmitProgress
                  ''Starting new build. It may take a while to upload large projects.'' False,
                StartBuilds (project_dir env) archs]
         in case start_builds env (project_dir env) archs of
              Inr builds \<Rightarrow> (evs, Inr (Inr builds))
            | Inl e \<Rightarrow>
                if is_RemoteBuildError e \<or> is_LaunchpadError e then
                  (evs @ [EmitProgress ''Starting build failed.'' True,
                          EmitProgress ''Cleaning up'' False, Cleanup], Inl e)
                else if is_Conflict e then
                  (evs @ [EmitProgress ''Remote repository already exists.'' True,
                          EmitProgress ''Cleaning up'' False, Cleanup], Inr (Inl EX_TEMPFAIL))
                else (evs, Inl e)))"

text \<open>The statements after the \<^verbatim>\<open>try\<close> statement: clean up unless the code is EX_TEMPFAIL.\<close>

definition run_finish :: "int \<Rightarrow> event list \<times> (exn + int)" where
  "run_finish returncode =
     (if returncode \<noteq> EX_TEMPFAIL
      then ([EmitProgress ''Cleaning up'' False, Cleanup], Inr returncode)
      else ([], Inr returncode))"

definition run_monitor :: "env \<Rightarrow> string \<Rightarrow> build list \<Rightarrow> event list \<times> (exn + int)" where
  "run_monitor env build_id builds =
     (case monitor_and_complete env (Some build_id) builds of
        (evs, Inr returncode) \<Rightarrow>
          (case run_finish returncode of (evs', r) \<Rightarrow> (evs @ evs', r))
      | (evs, Inl e) \<Rightarrow>
          if e = KeyboardInterrupt then
            (if confirm_with_user env ''Cancel builds?'' True
             then (evs @ [ConfirmWithUser ''Cancel builds?'' True,
                          EmitProgress ''Cancelling builds.'' False, CancelBuilds,
                          EmitProgress ''Cleaning up.'' False, Cleanup], Inr EX_OK)
             else (evs @ [ConfirmWithUser ''Cancel builds?'' True], Inr EX_OK))
          else if is_Exception e then
            (case run_finish 1 of (evs', r) \<Rightarrow> (evs @ evs', r))
          else (evs, Inl e))"

definition run :: "env \<Rightarrow> parsed_args \<Rightarrow> event list \<times> (exn + int)" where
  "run env args =
     (case run_prepare env args of
        (evs1, Inl e) \<Rightarrow> (evs1, Inl e)
      | (evs1, Inr (archs, build_id)) \<Rightarrow>
          (case run_submit env args archs build_id of
             (evs2, Inl e) \<Rightarrow> (evs1 @ evs2, Inl e)
           | (evs2, Inr (Inl code)) \<Rightarrow> (evs1 @ evs2, Inr code)
           | (evs2, Inr (Inr builds)) \<Rightarrow>
               (case run_monitor env build_id builds of
                  (evs3, r) \<Rightarrow> (evs1 @ evs2 @ evs3, r))))"

text \<open>The calls of \<^verbatim>\<open>start_builds\<close> among the effects of a run.\<close>

fun is_StartBuilds :: "event \<Rightarrow> bool" where
  "is_StartBuilds (StartBuilds _ _) = True"
| "is_StartBuilds _ = False"

text \<open>
  The calls that act on the remote build session, and the calls of a run in their order.
\<close>

fun is_session_call :: "event \<Rightarrow> bool" where
  "is_session_call (StartBuilds _ _) = True"
| "is_session_call (ResumeBuilds _) = True"
| "is_session_call MonitorBuilds = True"
| "is_session_call (FetchLogs _) = True"
| "is_session_call (FetchArtifacts _) = True"
| "is_session_call CancelBuilds = True"
| "is_session_call Cleanup = True"
| "is_session_call _ = False"

definition session_calls :: "event list \<Rightarrow> event list" where
  "session_calls evs = filter is_session_call evs"

text \<open>The variable \<^verbatim>\<open>states\<close> after the monitoring loop: the last snapshot, or the empty dict.\<close>

definition final_states :: "env \<Rightarrow> snapshot" where
  "final_states env =
     (if fst (monitor_builds env) = [] then [] else last (fst (monitor_builds env)))"

text \<open>The call that submits: \<^verbatim>\<open>resume_builds\<close> with \<^verbatim>\<open>--recover\<close>, else \<^verbatim>\<open>start_builds\<close>.\<close>

definition submit_call :: "env \<Rightarrow> parsed_args \<Rightarrow> string list \<Rightarrow> string \<Rightarrow> event" where
  "submit_call env args archs build_id =
     (if recover args then ResumeBuilds build_id else StartBuilds (project_dir env) archs)"

subsection \<open>A project and a host to run the command on\<close>

definition amd64_info :: build_info where
  "amd64_info = \<lparr> platform = ''amd64'', build_on = ''amd64'', build_for = ''amd64'' \<rparr>"

definition arm64_info :: build_info where
  "arm64_info = \<lparr> platform = ''arm64'', build_on = ''arm64'', build_for = ''arm64'' \<rparr>"

definition example_env :: env where
  "example_env =
     \<lparr> app_name = ''snapcraft'',
       project_name = ''hello'',
       platforms = True,
       architectures_in_yaml = False,
       build_plan = [arm64_info, amd64_info],
       project_dir = ''/home/user/hello'',
       cwd = ''/home/user/hello'',
       supported_archs = [''amd64'', ''arm64'', ''armhf'', ''ppc64el'', ''riscv64'', ''s390x''],
       host_arch = ''amd64'',
       sudo_user = None,
       geteuid = 1000,
       confirm_with_user = (\<lambda>prompt default. True),
       get_build_id = (\<lambda>app proj dir. ''abc123''),
       is_project_private = False,
       start_builds = (\<lambda>dir archs. Inr archs),
       resume_builds = (\<lambda>build_id. Inr [''arm64'', ''amd64'']),
       monitor_builds =
         ([[(''arm64'', PENDING), (''amd64'', RUNNING)],
           [(''arm64'', SUCCESS), (''amd64'', SUCCESS)]], None),
       fetch_logs =
         (\<lambda>dir. [(''arm64'', Some ''hello_arm64.txt''), (''amd64'', Some ''hello_amd64.txt'')]),
       fetch_artifacts = (\<lambda>dir. [''hello_1.0_arm64.snap'', ''hello_1.0_amd64.snap'']),
       py_repr = (\<lambda>s. [CHR 0x27] @ s @ [CHR 0x27]),
       str_int = (\<lambda>n. ''2''),
       str_build_plan = (\<lambda>plan. ''[...]''),
       humanize_list = (\<lambda>items conjunction. join '', '' items),
       path_name = (\<lambda>p. p) \<rparr>"

definition example_args :: parsed_args where
  "example_args =
     \<lparr> project = None,
       recover = False,
       launchpad_accept_public_upload = True,
       launchpad_timeout = 0,
       remote_build_build_fors = [] \<rparr>"

text \<open>A project that declares no platforms and no architectures.\<close>

definition bare_env :: env where
  "bare_env = example_env \<lparr> platforms := False \<rparr>"

text \<open>
  A project with two platform entries that build on amd64 for amd64, as
  \<^verbatim>\<open>platforms: {desktop: {build-on: [amd64], build-for: [amd64]},
  server: {build-on: [amd64], build-for: [amd64]}}\<close> declares them.
\<close>

definition same_target_env :: env where
  "same_target_env =
     example_env \<lparr> build_plan :=
       [\<lparr> platform = ''desktop'', build_on = ''amd64'', build_for = ''amd64'' \<rparr>,
        \<lparr> platform = ''server'', build_on = ''amd64'', build_for = ''amd64'' \<rparr>] \<rparr>"

text \<open>
  The offending groups: the build-on values that more than one target of the plan
  builds on, each with the build-for values of all its targets.
\<close>

definition offenders :: "build_info list \<Rightarrow> (string \<times> string list) list" where
  "offenders plan = filter (\<lambda>item. length (snd item) > 1) (group_by_build_on plan)"

text \<open>A project with two targets that build on amd64, for amd64 and for riscv64.\<close>

definition two_targets_env :: env where
  "two_targets_env =
     example_env \<lparr> build_plan :=
       [\<lparr> platform = ''one'', build_on = ''amd64'', build_for = ''amd64'' \<rparr>,
        arm64_info,
        \<lparr> platform = ''two'', build_on = ''amd64'', build_for = ''riscv64'' \<rparr>] \<rparr>"

text \<open>A snapshot with a pending, a running, a failed and a cancelled build.\<close>

definition example_states :: snapshot where
  "example_states =
     [(''arm64'', PENDING), (''amd64'', RUNNING), (''s390x'', FAILED), (''armhf'', CANCELLED)]"

text \<open>The monitoring times out after two snapshots.\<close>

definition timeout_env :: env where
  "timeout_env =
     example_env \<lparr> monitor_builds :=
       ([[(''arm64'', PENDING), (''amd64'', RUNNING)],
         [(''arm64'', RUNNING), (''amd64'', RUNNING)]], Some (TimeoutError ''timed out'')) \<rparr>"

text \<open>The remote repository of the session exists already.\<close>

definition conflict_env :: env where
  "conflict_env = example_env \<lparr> start_builds := (\<lambda>dir archs. Inl (Conflict ''HTTP 409'')) \<rparr>"

text \<open>The submission fails with a Launchpad error.\<close>

definition launchpad_error_env :: env where
  "launchpad_error_env =
     example_env \<lparr> start_builds := (\<lambda>dir archs. Inl (LaunchpadError ''recipe not created'')) \<rparr>"

text \<open>The submission fails with an error of lazr.restfulclient that is not a conflict (a sibling class of \<^verbatim>\<open>Conflict\<close>).\<close>

definition server_error_env :: env where
  "server_error_env =
     example_env \<lparr> start_builds :=
       (\<lambda>dir archs. Inl (OtherException ''lazr.restfulclient.errors.ServerError'')) \<rparr>"

text \<open>The operator interrupts the monitoring and confirms the cancellation.\<close>

definition interrupt_env :: env where
  "interrupt_env =
     example_env \<lparr> monitor_builds :=
       ([[(''arm64'', PENDING), (''amd64'', RUNNING)]], Some KeyboardInterrupt) \<rparr>"

text \<open>The operator interrupts the monitoring and declines the cancellation.\<close>

definition interrupt_declined_env :: env where
  "interrupt_declined_env = interrupt_env \<lparr> confirm_with_user := (\<lambda>prompt default. False) \<rparr>"

text \<open>The command line with \<^verbatim>\<open>--recover\<close>.\<close>

definition recover_args :: parsed_args where
  "recover_args = example_args \<lparr> recover := True \<rparr>"

text \<open>Resuming fails.\<close>

definition resume_error_env :: env where
  "resume_error_env =
     example_env \<lparr> resume_builds := (\<lambda>build_id. Inl (LaunchpadError ''repository not found'')) \<rparr>"

text \<open>The build for amd64 fails.\<close>

definition failed_env :: env where
  "failed_env =
     example_env \<lparr> monitor_builds :=
       ([[(''arm64'', RUNNING), (''amd64'', RUNNING)],
         [(''arm64'', SUCCESS), (''amd64'', FAILED)]], None) \<rparr>"

text \<open>All builds succeed and no artifact is retrieved.\<close>

definition no_artifacts_env :: env where
  "no_artifacts_env = example_env \<lparr> fetch_artifacts := (\<lambda>dir. []) \<rparr>"

text \<open>All builds succeed and no log is retrieved.\<close>

definition no_logs_env :: env where
  "no_logs_env = example_env \<lparr> fetch_logs := (\<lambda>dir. []) \<rparr>"

section \<open>Properties\<close>

subsection \<open>Architecture resolution\<close>

lemma filter_loop_nonempty:
  "archs \<noteq> [] \<Longrightarrow>
   filter_loop plan archs build_fors = Inr (archs @ accumulated_matches plan build_fors)"
  by (induction build_fors arbitrary: archs) (simp_all add: accumulated_matches_def Let_def)

lemma filter_loop_start:
  "filter_loop plan [] (bf # rest) =
     (if filter_plan plan bf = [] then Inl EmptyBuildPlanError
      else Inr (accumulated_matches plan (bf # rest)))"
  by (simp add: filter_loop_nonempty Let_def) (simp add: accumulated_matches_def)

lemma get_archs_filter_loop:
  "platforms env \<or> architectures_in_yaml env \<Longrightarrow> build_fors \<noteq> [] \<Longrightarrow>
   snd (get_archs env build_fors) = filter_loop (build_plan env) [] build_fors"
  by (simp add: get_archs_def split: sum.split)

text \<open>
  In filter mode the loop raises exactly when the first override entry selects
  nothing: once \<open>archs\<close> is not empty, no later entry can empty it.
\<close>

lemma get_archs_filter_mode:
  "platforms env \<or> architectures_in_yaml env \<Longrightarrow>
   snd (get_archs env (bf # rest)) =
     (if filter_plan (build_plan env) bf = [] then Inl EmptyBuildPlanError
      else Inr (accumulated_matches (build_plan env) (bf # rest)))"
  by (simp only: get_archs_filter_loop filter_loop_start list.distinct simp_thms)

text \<open>
  The three modes, in their priority. A project that declares platforms or
  architectures gets the build-for values of its plan, in plan order, when there is no
  override; with an override, resolution either raises \<^verbatim>\<open>EmptyBuildPlanError\<close> or
  returns the accumulated filter matches, and it does return them when the first entry
  selects a target. A project that declares none gets a non-empty override verbatim,
  and without an override the one-element list of the host architecture.
\<close>

lemma get_archs_modes:
  "(platforms env \<or> architectures_in_yaml env \<longrightarrow>
      (build_fors = [] \<longrightarrow>
         snd (get_archs env build_fors) = Inr (map build_for (build_plan env))) \<and>
      (build_fors \<noteq> [] \<longrightarrow>
         (snd (get_archs env build_fors) = Inl EmptyBuildPlanError \<or>
          snd (get_archs env build_fors) =
            Inr (accumulated_matches (build_plan env) build_fors)) \<and>
         (filter_plan (build_plan env) (hd build_fors) \<noteq> [] \<longrightarrow>
          snd (get_archs env build_fors) =
            Inr (accumulated_matches (build_plan env) build_fors)))) \<and>
   (\<not> platforms env \<and> \<not> architectures_in_yaml env \<longrightarrow>
      (build_fors \<noteq> [] \<longrightarrow> snd (get_archs env build_fors) = Inr build_fors) \<and>
      (build_fors = [] \<longrightarrow> snd (get_archs env build_fors) = Inr [host_arch env]))"
proof (cases build_fors)
  case Nil
  then show ?thesis by (simp add: get_archs_def)
next
  case (Cons bf rest)
  show ?thesis
  proof (cases "platforms env \<or> architectures_in_yaml env")
    case True
    from get_archs_filter_mode [OF True, of bf rest] Cons True show ?thesis
      by (cases "filter_plan (build_plan env) bf = []") auto
  next
    case False
    with Cons show ?thesis by (simp add: get_archs_def)
  qed
qed

lemma get_archs_modes_example:
  "platforms example_env \<and>
   snd (get_archs example_env []) = Inr [''arm64'', ''amd64''] \<and>
   filter_plan (build_plan example_env) (hd [''amd64'', ''arm64'', ''amd64'']) \<noteq> [] \<and>
   snd (get_archs example_env [''amd64'', ''arm64'', ''amd64'']) =
     Inr [''amd64'', ''arm64'', ''amd64''] \<and>
   \<not> platforms bare_env \<and> \<not> architectures_in_yaml bare_env \<and>
   snd (get_archs bare_env [''s390x'', ''armhf'']) = Inr [''s390x'', ''armhf''] \<and>
   snd (get_archs bare_env []) = Inr [''amd64'']"
  using get_archs_modes [of example_env "[]"]
    get_archs_modes [of example_env "[''amd64'', ''arm64'', ''amd64'']"]
    get_archs_modes [of bare_env "[''s390x'', ''armhf'']"]
    get_archs_modes [of bare_env "[]"]
  by (simp add: example_env_def bare_env_def amd64_info_def arm64_info_def
      accumulated_matches_def filter_plan_def)

text \<open>
  C3. The project declares arm64 and amd64, so the override filters its plan. For the
  override s390x, arm64 the accumulated filter matches are arm64, and resolution does
  not return them: it raises \<^verbatim>\<open>EmptyBuildPlanError\<close>, because the first entry
  selects nothing.
\<close>

theorem get_archs_override_not_returned:
  "platforms example_env \<and>
   map build_for (build_plan example_env) = [''arm64'', ''amd64''] \<and>
   accumulated_matches (build_plan example_env) [''s390x'', ''arm64''] = [''arm64''] \<and>
   snd (get_archs example_env [''s390x'', ''arm64'']) = Inl EmptyBuildPlanError"
  by (simp add: example_env_def amd64_info_def arm64_info_def get_archs_def
      accumulated_matches_def filter_plan_def)

text \<open>
  C4. The project declares arm64 and amd64; the override is riscv64, amd64. Filtering
  the plan by the whole override selects amd64, yet resolution raises
  \<^verbatim>\<open>EmptyBuildPlanError\<close>, because the first entry selects nothing. With the entries in
  the other order it returns amd64.
\<close>

theorem get_archs_first_entry_without_match:
  "accumulated_matches (build_plan example_env) [''riscv64'', ''amd64''] = [''amd64''] \<and>
   snd (get_archs example_env [''riscv64'', ''amd64'']) = Inl EmptyBuildPlanError \<and>
   snd (get_archs example_env [''amd64'', ''riscv64'']) = Inr [''amd64'']"
  by (simp add: example_env_def amd64_info_def arm64_info_def get_archs_def
      accumulated_matches_def filter_plan_def)

subsection \<open>Plan validation\<close>

lemma build_map_of_snoc:
  "build_map_of (plan @ [info]) =
     setdefault_append (build_map_of plan) (build_on info) (build_for info)"
  by (simp add: build_map_of_def)

lemma setdefault_append_tabulate:
  "distinct ks \<Longrightarrow>
   setdefault_append (map (\<lambda>bo. (bo, f bo)) ks) k v =
     (if k \<in> set ks then map (\<lambda>bo. (bo, f bo @ (if bo = k then [v] else []))) ks
      else map (\<lambda>bo. (bo, f bo)) ks @ [(k, [v])])"
  by (induction ks) auto

lemma first_occurrences_snoc:
  "rev (remdups (rev (xs @ [k]))) =
     (if k \<in> set xs then rev (remdups (rev xs)) else rev (remdups (rev xs)) @ [k])"
  by simp

lemma group_by_build_on_snoc:
  "group_by_build_on (plan @ [info]) =
     setdefault_append (group_by_build_on plan) (build_on info) (build_for info)"
proof -
  let ?ks = "rev (remdups (rev (map build_on plan)))"
  let ?f = "\<lambda>bo. map build_for (filter (\<lambda>i. build_on i = bo) plan)"
  have d: "distinct ?ks" by simp
  have s: "set ?ks = build_on ` set plan" by simp
  show ?thesis
  proof (cases "build_on info \<in> build_on ` set plan")
    case True
    then show ?thesis
      unfolding group_by_build_on_def
      by (simp add: setdefault_append_tabulate [OF d, where f = ?f] del: distinct_rev set_rev)
         (auto simp: image_iff)
  next
    case False
    then have "filter (\<lambda>i. build_on i = build_on info) plan = []"
      unfolding filter_empty_conv by (metis imageI)
    with False show ?thesis
      unfolding group_by_build_on_def
      by (simp add: setdefault_append_tabulate [OF d, where f = ?f])
         (auto simp: image_iff)
  qed
qed

lemma build_map_of_group: "build_map_of plan = group_by_build_on plan"
proof (induction plan rule: rev_induct)
  case Nil
  show ?case by (simp add: build_map_of_def group_by_build_on_def)
next
  case (snoc info plan)
  then show ?case by (simp only: build_map_of_snoc group_by_build_on_snoc)
qed

lemma offending_iff:
  "(filter (\<lambda>item. length (snd item) > 1) (group_by_build_on plan) \<noteq> []) =
   (\<exists>bo. 1 < length (filter (\<lambda>info. build_on info = bo) plan))"
proof -
  have "\<And>bo. 1 < length (filter (\<lambda>info. build_on info = bo) plan) \<Longrightarrow> bo \<in> build_on ` set plan"
  proof -
    fix bo assume "1 < length (filter (\<lambda>info. build_on info = bo) plan)"
    then have "filter (\<lambda>info. build_on info = bo) plan \<noteq> []" by auto
    then show "bo \<in> build_on ` set plan" by (auto simp: filter_empty_conv)
  qed
  then show ?thesis
    by (auto simp: group_by_build_on_def filter_empty_conv)
qed


lemma validate_single_artifact_eq:
  "validate_single_artifact_per_build_on env =
     (if offenders (build_plan env) = [] then Inr ()
      else Inl (conflict_error (map (build_on_error_line env) (offenders (build_plan env)))))"
  by (simp add: validate_single_artifact_per_build_on_def build_on_errors_def
      build_map_of_group offenders_def)

lemma offenders_member:
  "1 < length (filter (\<lambda>info. build_on info = bo) plan) \<Longrightarrow>
   (bo, map build_for (filter (\<lambda>info. build_on info = bo) plan)) \<in> set (offenders plan)"
proof -
  assume a: "1 < length (filter (\<lambda>info. build_on info = bo) plan)"
  then have "filter (\<lambda>info. build_on info = bo) plan \<noteq> []" by auto
  then have "bo \<in> build_on ` set plan" unfolding filter_empty_conv by auto
  with a show ?thesis by (auto simp: offenders_def group_by_build_on_def)
qed

lemma distinct_build_fors_le:
  "card (distinct_build_fors plan bo) \<le> length (filter (\<lambda>info. build_on info = bo) plan)"
  unfolding distinct_build_fors_def
  by (metis card_length length_map)

text \<open>
  C5, amended. Validation fails exactly when some build-on value occurs in more than
  one target of the plan; in particular it fails when a build-on value is paired with
  more than one distinct build-for value. The error it raises is the one combined error
  whose message has a line for every offending build-on value, in the order of first
  occurrence, each with the build-for values of all its targets.
\<close>

theorem validate_single_artifact_per_build_on_conflicts:
  "(validate_single_artifact_per_build_on env \<noteq> Inr ()) =
     (\<exists>bo. 1 < length (filter (\<lambda>info. build_on info = bo) (build_plan env))) \<and>
   (\<forall>bo. 1 < card (distinct_build_fors (build_plan env) bo) \<longrightarrow>
      validate_single_artifact_per_build_on env \<noteq> Inr ()) \<and>
   (\<forall>e. validate_single_artifact_per_build_on env = Inl e \<longrightarrow>
      e = conflict_error (map (build_on_error_line env) (offenders (build_plan env)))) \<and>
   (\<forall>bo. 1 < length (filter (\<lambda>info. build_on info = bo) (build_plan env)) \<longrightarrow>
      (bo, map build_for (filter (\<lambda>info. build_on info = bo) (build_plan env)))
        \<in> set (offenders (build_plan env)))"
proof -
  have iff: "(validate_single_artifact_per_build_on env \<noteq> Inr ()) =
     (\<exists>bo. 1 < length (filter (\<lambda>info. build_on info = bo) (build_plan env)))"
    using offending_iff [of "build_plan env"]
    unfolding validate_single_artifact_eq offenders_def by auto
  have card: "\<forall>bo. 1 < card (distinct_build_fors (build_plan env) bo) \<longrightarrow>
      validate_single_artifact_per_build_on env \<noteq> Inr ()"
  proof (intro allI impI)
    fix bo assume "1 < card (distinct_build_fors (build_plan env) bo)"
    with distinct_build_fors_le [of "build_plan env" bo]
    have "1 < length (filter (\<lambda>info. build_on info = bo) (build_plan env))" by simp
    with iff show "validate_single_artifact_per_build_on env \<noteq> Inr ()" by blast
  qed
  have err: "\<forall>e. validate_single_artifact_per_build_on env = Inl e \<longrightarrow>
      e = conflict_error (map (build_on_error_line env) (offenders (build_plan env)))"
    by (simp add: validate_single_artifact_eq)
  from iff card err offenders_member show ?thesis by blast
qed

theorem validate_single_artifact_per_build_on_conflicts_witness:
  "1 < card (distinct_build_fors (build_plan two_targets_env) ''amd64'') \<and>
   1 < length (filter (\<lambda>info. build_on info = ''amd64'') (build_plan two_targets_env)) \<and>
   validate_single_artifact_per_build_on two_targets_env =
     Inl (conflict_error (map (build_on_error_line two_targets_env)
            (offenders (build_plan two_targets_env)))) \<and>
   (''amd64'', [''amd64'', ''riscv64'']) \<in> set (offenders (build_plan two_targets_env)) \<and>
   offenders (build_plan two_targets_env) = [(''amd64'', [''amd64'', ''riscv64''])]"
  using validate_single_artifact_per_build_on_conflicts [of two_targets_env]
  by (simp add: two_targets_env_def example_env_def arm64_info_def distinct_build_fors_def
      validate_single_artifact_per_build_on_def build_on_errors_def build_map_of_def
      offenders_def group_by_build_on_def)

text \<open>
  C5 as stated fails: two platform entries that build on amd64 for amd64 pair amd64
  with one distinct build-for value only, and validation fails.
\<close>

theorem validate_same_build_for_counterexample:
  "map build_on (build_plan same_target_env) = [''amd64'', ''amd64''] \<and>
   card (distinct_build_fors (build_plan same_target_env) ''amd64'') = 1 \<and>
   validate_single_artifact_per_build_on same_target_env \<noteq> Inr ()"
  by (simp add: same_target_env_def example_env_def distinct_build_fors_def
      validate_single_artifact_per_build_on_def build_on_errors_def build_map_of_def)

subsection \<open>Classification of a snapshot\<close>

lemma foldl_add_arch_building:
  "building (foldl add_arch b states) =
     building b \<union> {a. \<exists>st. (a, st) \<in> set states \<and> is_running st}"
  by (induction states arbitrary: b) (auto simp: add_arch_def Let_def)

lemma foldl_add_arch_succeeded:
  "succeeded (foldl add_arch b states) =
     succeeded b \<union> {a. \<exists>st. (a, st) \<in> set states \<and> \<not> is_running st \<and> st = SUCCESS}"
  by (induction states arbitrary: b) (auto simp: add_arch_def Let_def)

lemma foldl_add_arch_uploading:
  "uploading (foldl add_arch b states) =
     uploading b \<union>
     {a. \<exists>st. (a, st) \<in> set states \<and> \<not> is_running st \<and> st \<noteq> SUCCESS \<and> st = UPLOADING}"
  by (induction states arbitrary: b) (auto simp: add_arch_def Let_def)

lemma foldl_add_arch_pending:
  "pending (foldl add_arch b states) =
     pending b \<union>
     {a. \<exists>st. (a, st) \<in> set states \<and> \<not> is_running st \<and> st \<noteq> SUCCESS \<and>
                st \<noteq> UPLOADING \<and> st = PENDING}"
  by (induction states arbitrary: b) (auto simp: add_arch_def Let_def)

lemma foldl_add_arch_not_building:
  "not_building (foldl add_arch b states) =
     not_building b \<union>
     {a. \<exists>st. (a, st) \<in> set states \<and> \<not> is_running st \<and> st \<noteq> SUCCESS \<and>
                st \<noteq> UPLOADING \<and> st \<noteq> PENDING}"
  by (induction states arbitrary: b) (auto simp: add_arch_def Let_def)

lemmas classify_sets =
  foldl_add_arch_building foldl_add_arch_succeeded foldl_add_arch_uploading
  foldl_add_arch_pending foldl_add_arch_not_building



lemma classify_cover:
  "\<Union> (set (bucket_sets (classify states))) = fst ` set states"
proof -
  have "\<Union> (set (bucket_sets (classify states))) =
      {a. \<exists>st. (a, st) \<in> set states}"
    unfolding bucket_sets_def ordered_buckets_def classify_def
    by (simp add: classify_sets empty_buckets_def) blast
  also have "\<dots> = fst ` set states" by force
  finally show ?thesis .
qed


lemma unique_state:
  "distinct (map fst states) \<Longrightarrow> (a, st) \<in> set states \<Longrightarrow>
   (\<exists>st'. (a, st') \<in> set states \<and> P st') \<longleftrightarrow> P st"
  by (metis eq_key_imp_eq_value)

lemma classify_member:
  assumes "distinct (map fst states)" and "(a, st) \<in> set states"
  shows "a \<in> building (classify states) \<longleftrightarrow> is_running st"
    and "a \<in> succeeded (classify states) \<longleftrightarrow> \<not> is_running st \<and> st = SUCCESS"
    and "a \<in> uploading (classify states) \<longleftrightarrow>
           \<not> is_running st \<and> st \<noteq> SUCCESS \<and> st = UPLOADING"
    and "a \<in> pending (classify states) \<longleftrightarrow>
           \<not> is_running st \<and> st \<noteq> SUCCESS \<and> st \<noteq> UPLOADING \<and> st = PENDING"
    and "a \<in> not_building (classify states) \<longleftrightarrow>
           \<not> is_running st \<and> st \<noteq> SUCCESS \<and> st \<noteq> UPLOADING \<and> st \<noteq> PENDING"
  unfolding classify_def classify_sets
  by (simp_all only: empty_buckets_def buckets.simps Un_empty_left mem_Collect_eq
      unique_state [OF assms])

lemma classify_exactly_one:
  assumes "distinct (map fst states)" and "(a, st) \<in> set states"
  shows "length (filter (\<lambda>B. a \<in> B) (bucket_sets (classify states))) = 1"
proof -
  have "length (filter (\<lambda>B. a \<in> B) (bucket_sets (classify states))) =
      (if a \<in> not_building (classify states) then 1 else 0) +
      (if a \<in> building (classify states) then 1 else 0) +
      (if a \<in> uploading (classify states) then 1 else 0) +
      (if a \<in> succeeded (classify states) then 1 else 0) +
      (if a \<in> pending (classify states) then 1 else 0)"
    unfolding bucket_sets_def ordered_buckets_def by simp
  also have "\<dots> = 1"
    unfolding classify_member [OF assms] by auto
  finally show ?thesis .
qed


lemma classify_finite:
  assumes "B \<in> set (bucket_sets (classify states))"
  shows "finite B"
proof -
  from assms have "B \<subseteq> fst ` set states" using classify_cover [of states] by blast
  then show "finite B" by (rule finite_subset) simp
qed

lemma progress_parts_filter:
  "progress_parts b = map render_bucket (filter (\<lambda>t. snd (snd t) \<noteq> {}) (ordered_buckets b))"
  by (simp add: progress_parts_def ordered_buckets_def render_bucket_def)

text \<open>
  For a snapshot (a dict, so with distinct keys) the five buckets, in the order
  stopped, building, uploading, succeeded, pending, cover the architectures of the
  snapshot, and every architecture is in exactly one of them. The progress line is the
  \<^verbatim>\<open>; \<close>-joined rendering of the buckets that are not empty, in that order, each
  with its label and its architectures as a sorted list without duplicates.
\<close>

lemma classify_buckets_partition:
  "distinct (map fst states) \<longrightarrow>
     bucket_sets (classify states) =
       [not_building (classify states), building (classify states),
        uploading (classify states), succeeded (classify states),
        pending (classify states)] \<and>
     \<Union> (set (bucket_sets (classify states))) = fst ` set states \<and>
     (\<forall>a \<in> fst ` set states.
        length (filter (\<lambda>B. a \<in> B) (bucket_sets (classify states))) = 1) \<and>
     progress_line states =
       join ''; '' (map render_bucket
         (filter (\<lambda>t. snd (snd t) \<noteq> {}) (ordered_buckets (classify states)))) \<and>
     map fst (ordered_buckets (classify states)) =
       [''Stopped: '', ''Building: '', ''Uploading: '', ''Succeeded: '', ''Pending: ''] \<and>
     (\<forall>B \<in> set (bucket_sets (classify states)).
        sorted (sorted_list_of_set B) \<and> distinct (sorted_list_of_set B) \<and>
        set (sorted_list_of_set B) = B)"
proof
  assume d: "distinct (map fst states)"
  have one: "\<forall>a \<in> fst ` set states.
      length (filter (\<lambda>B. a \<in> B) (bucket_sets (classify states))) = 1"
  proof
    fix a assume "a \<in> fst ` set states"
    then obtain st where "(a, st) \<in> set states" by auto
    with d show "length (filter (\<lambda>B. a \<in> B) (bucket_sets (classify states))) = 1"
      by (rule classify_exactly_one)
  qed
  have line: "progress_line states =
       join ''; '' (map render_bucket
         (filter (\<lambda>t. snd (snd t) \<noteq> {}) (ordered_buckets (classify states))))"
    by (simp only: progress_line_def progress_parts_filter)
  have srt: "\<forall>B \<in> set (bucket_sets (classify states)).
        sorted (sorted_list_of_set B) \<and> distinct (sorted_list_of_set B) \<and>
        set (sorted_list_of_set B) = B"
    using classify_finite by auto
  have sets: "bucket_sets (classify states) =
       [not_building (classify states), building (classify states),
        uploading (classify states), succeeded (classify states),
        pending (classify states)]"
    by (simp add: bucket_sets_def ordered_buckets_def)
  have labels: "map fst (ordered_buckets (classify states)) =
       [''Stopped: '', ''Building: '', ''Uploading: '', ''Succeeded: '', ''Pending: '']"
    by (simp add: ordered_buckets_def)
  from sets classify_cover one line labels srt
  show "bucket_sets (classify states) =
       [not_building (classify states), building (classify states),
        uploading (classify states), succeeded (classify states),
        pending (classify states)] \<and>
     \<Union> (set (bucket_sets (classify states))) = fst ` set states \<and>
     (\<forall>a \<in> fst ` set states.
        length (filter (\<lambda>B. a \<in> B) (bucket_sets (classify states))) = 1) \<and>
     progress_line states =
       join ''; '' (map render_bucket
         (filter (\<lambda>t. snd (snd t) \<noteq> {}) (ordered_buckets (classify states)))) \<and>
     map fst (ordered_buckets (classify states)) =
       [''Stopped: '', ''Building: '', ''Uploading: '', ''Succeeded: '', ''Pending: ''] \<and>
     (\<forall>B \<in> set (bucket_sets (classify states)).
        sorted (sorted_list_of_set B) \<and> distinct (sorted_list_of_set B) \<and>
        set (sorted_list_of_set B) = B)"
    by (intro conjI)
qed

lemma example_states_line:
  "progress_line example_states = ''Stopped: armhf,s390x; Building: amd64; Pending: arm64''"
  by code_simp


subsection \<open>The effects of the parts of a run\<close>

lemma session_calls_append [simp]:
  "session_calls (xs @ ys) = session_calls xs @ session_calls ys"
  by (simp add: session_calls_def)

lemma session_calls_Nil [simp]: "session_calls [] = []"
  by (simp add: session_calls_def)

lemma session_calls_Cons [simp]:
  "session_calls (x # xs) = (if is_session_call x then x # session_calls xs else session_calls xs)"
  by (simp add: session_calls_def)

lemma monitor_loop_final:
  "snd (monitor_loop init snaps) = (if snaps = [] then init else last snaps)"
  by (induction snaps arbitrary: init) (auto simp: case_prod_beta)

lemma monitor_loop_calls: "session_calls (fst (monitor_loop init snaps)) = []"
  by (induction snaps arbitrary: init) (auto simp: case_prod_beta)

lemma report_failed_code:
  "snd (report_failed rc states) = (if \<exists>item \<in> set states. snd item = FAILED then 1 else rc)"
  by (induction states arbitrary: rc) (auto simp: case_prod_beta)

lemma report_failed_calls: "session_calls (fst (report_failed rc states)) = []"
  by (induction states arbitrary: rc) (auto simp: case_prod_beta)

lemma complete_code:
  "snd (complete env builds states) =
     (if (\<forall>item \<in> set states. snd item \<noteq> FAILED) \<and> fetch_logs env (cwd env) \<noteq> [] \<and>
         fetch_artifacts env (cwd env) \<noteq> [] then 0 else 1)"
  using report_failed_code [of 0 states]
  by (auto simp: complete_def Let_def case_prod_beta)

lemma complete_calls:
  "session_calls (fst (complete env builds states)) = [FetchLogs (cwd env), FetchArtifacts (cwd env)]"
  using report_failed_calls [of 0 states]
  by (auto simp: complete_def Let_def case_prod_beta)

lemma monitor_and_complete_normal:
  assumes "snd (monitor_builds env) = None"
  shows "snd (monitor_and_complete env build_id builds) =
           Inr (snd (complete env builds (final_states env)))"
    and "session_calls (fst (monitor_and_complete env build_id builds)) =
           [MonitorBuilds, FetchLogs (cwd env), FetchArtifacts (cwd env)]"
  using assms monitor_loop_final [of "[]" "fst (monitor_builds env)"]
    monitor_loop_calls [of "[]" "fst (monitor_builds env)"]
    complete_calls [of env builds "final_states env"]
  by (auto simp: monitor_and_complete_def final_states_def Let_def case_prod_beta)

lemma monitor_and_complete_raises:
  assumes "snd (monitor_builds env) = Some e"
  shows "snd (monitor_and_complete env build_id builds) =
           (if is_TimeoutError e then Inr 75 else Inl e)"
    and "session_calls (fst (monitor_and_complete env build_id builds)) = [MonitorBuilds]"
    and "is_TimeoutError e \<Longrightarrow>
           last (fst (monitor_and_complete env build_id builds)) =
             EmitMessage (timeout_message env build_id)"
  using assms monitor_loop_calls [of "[]" "fst (monitor_builds env)"]
  by (auto simp: monitor_and_complete_def Let_def case_prod_beta)


lemma needs_acknowledgement_calls:
  "session_calls (fst (needs_acknowledgement env args)) = []"
  by (simp add: needs_acknowledgement_def Let_def case_prod_beta)

lemma validate_calls: "session_calls (fst (validate env args)) = []"
  using needs_acknowledgement_calls [of env args]
  by (simp add: validate_def Let_def case_prod_beta split: sum.split)

lemma get_archs_calls: "session_calls (fst (get_archs env build_fors)) = []"
  by (simp add: get_archs_def archs_debug_def split: sum.split)

lemma run_prepare_calls: "session_calls (fst (run_prepare env args)) = []"
  using validate_calls [of env args] get_archs_calls [of env "remote_build_build_fors args"]
  by (cases "validate env args"; cases "get_archs env (remote_build_build_fors args)")
     (simp add: run_prepare_def Let_def split: sum.split option.split)

lemma run_submit_builds:
  "snd (run_submit env args archs bid) = Inr (Inr builds) \<Longrightarrow>
   session_calls (fst (run_submit env args archs bid)) = [submit_call env args archs bid]"
  by (auto simp: run_submit_def submit_call_def Let_def split: sum.splits if_splits)

lemma run_monitor_raises:
  assumes "snd (monitor_builds env) = Some e"
  shows "is_TimeoutError e \<Longrightarrow> snd (run_monitor env bid builds) = Inr 75"
    and "is_TimeoutError e \<Longrightarrow> session_calls (fst (run_monitor env bid builds)) = [MonitorBuilds]"
    and "is_TimeoutError e \<Longrightarrow>
           last (fst (run_monitor env bid builds)) = EmitMessage (timeout_message env (Some bid))"
    and "e = KeyboardInterrupt \<Longrightarrow> snd (run_monitor env bid builds) = Inr EX_OK"
    and "e = KeyboardInterrupt \<Longrightarrow>
           session_calls (fst (run_monitor env bid builds)) =
             (if confirm_with_user env ''Cancel builds?'' True
              then [MonitorBuilds, CancelBuilds, Cleanup] else [MonitorBuilds])"
  using monitor_and_complete_raises [OF assms, of "Some bid" builds]
  by (cases "monitor_and_complete env (Some bid) builds";
      simp add: run_monitor_def run_finish_def EX_TEMPFAIL_def)+

lemma run_composed:
  assumes "snd (run_prepare env args) = Inr (archs, bid)"
    and "snd (run_submit env args archs bid) = Inr (Inr builds)"
  shows "snd (run env args) = snd (run_monitor env bid builds)"
    and "fst (run env args) =
           fst (run_prepare env args) @ fst (run_submit env args archs bid) @
           fst (run_monitor env bid builds)"
  using assms
  by (cases "run_prepare env args"; cases "run_submit env args archs bid";
      simp add: run_def case_prod_beta)+

lemma run_composed_calls:
  assumes "snd (run_prepare env args) = Inr (archs, bid)"
    and "snd (run_submit env args archs bid) = Inr (Inr builds)"
  shows "session_calls (fst (run env args)) =
           submit_call env args archs bid # session_calls (fst (run_monitor env bid builds))"
  using run_prepare_calls [of env args]
  by (simp add: run_composed(2) [OF assms] run_submit_builds [OF assms(2)])

lemma run_stops_at_submit:
  assumes "snd (run_prepare env args) = Inr (archs, bid)"
    and "snd (run_submit env args archs bid) = Inl e"
  shows "snd (run env args) = Inl e"
    and "session_calls (fst (run env args)) =
           session_calls (fst (run_submit env args archs bid))"
  using assms run_prepare_calls [of env args]
  by (cases "run_prepare env args"; cases "run_submit env args archs bid";
      simp add: run_def case_prod_beta)+

lemma run_returns_at_submit:
  assumes "snd (run_prepare env args) = Inr (archs, bid)"
    and "snd (run_submit env args archs bid) = Inr (Inl code)"
  shows "snd (run env args) = Inr code"
    and "session_calls (fst (run env args)) =
           session_calls (fst (run_submit env args archs bid))"
  using assms run_prepare_calls [of env args]
  by (cases "run_prepare env args"; cases "run_submit env args archs bid";
      simp add: run_def case_prod_beta)+

lemma count_list_session_calls:
  "is_session_call x \<Longrightarrow> count_list (session_calls evs) x = count_list evs x"
  by (induction evs) auto

lemma set_session_calls:
  "is_session_call x \<Longrightarrow> x \<in> set (session_calls evs) \<longleftrightarrow> x \<in> set evs"
  by (auto simp: session_calls_def)

lemma sublist_quoted:
  assumes "sublist xs cmd"
  shows "sublist xs (pre @ q @ cmd @ q')"
proof -
  have "sublist cmd ((pre @ q) @ cmd @ q')" by (rule sublist_appendI)
  with assms have "sublist xs ((pre @ q) @ cmd @ q')" by (rule sublist_order.order_trans)
  then show ?thesis by simp
qed

lemma resume_command_recover: "sublist ''--recover'' (resume_command env build_id)"
proof -
  have "\<exists>rest. resume_command env build_id =
      (app_name env @ '' remote-build '') @ ''--recover'' @ rest"
    by (simp add: resume_command_def split: option.split)
  then show ?thesis by (metis sublist_appendI)
qed

lemma resume_command_build_id:
  "bid \<noteq> [] \<Longrightarrow>
   resume_command env (Some bid) = app_name env @ '' remote-build --recover --build-id='' @ bid"
  by (simp add: resume_command_def)

subsection \<open>Timeout, conflict and other failures of the submission\<close>

text \<open>
  C1. When the monitoring sequence raises a timeout, the last effect of the command is the
  message with the resume instruction: \<^verbatim>\<open>repr\<close> of a command that contains
  \<^verbatim>\<open>--recover\<close> and, when the build id is not empty, \<^verbatim>\<open>--build-id=\<close> followed by
  the id. Where \<^verbatim>\<open>repr\<close> only puts the command between quotes, as it does for a
  string without quotes, backslashes and unprintable characters, the message contains
  both. The command returns 75, which is EX_TEMPFAIL, and the only calls on the session
  are the submission and the monitoring: \<^verbatim>\<open>cleanup\<close> is not called.
\<close>

theorem run_timeout:
  assumes "snd (run_prepare env args) = Inr (archs, bid)"
    and "snd (run_submit env args archs bid) = Inr (Inr builds)"
    and "snd (monitor_builds env) = Some e"
    and "is_TimeoutError e"
  shows "snd (run env args) = Inr 75 \<and> EX_TEMPFAIL = 75 \<and>
     last (fst (run env args)) = EmitMessage (timeout_message env (Some bid)) \<and>
     timeout_message env (Some bid) =
       ''Timed out waiting for build.'' @ [CHR 0x0A] @ ''To resume, run '' @
       py_repr env (resume_command env (Some bid)) \<and>
     sublist ''--recover'' (resume_command env (Some bid)) \<and>
     (bid \<noteq> [] \<longrightarrow>
        resume_command env (Some bid) =
          app_name env @ '' remote-build --recover --build-id='' @ bid \<and>
        sublist (''--build-id='' @ bid) (resume_command env (Some bid))) \<and>
     (py_repr env (resume_command env (Some bid)) =
        [CHR 0x27] @ resume_command env (Some bid) @ [CHR 0x27] \<longrightarrow>
        sublist ''--recover'' (timeout_message env (Some bid)) \<and>
        (bid \<noteq> [] \<longrightarrow> sublist (''--build-id='' @ bid) (timeout_message env (Some bid)))) \<and>
     session_calls (fst (run env args)) = [submit_call env args archs bid, MonitorBuilds] \<and>
     Cleanup \<notin> set (fst (run env args))"
proof -
  have code: "snd (run env args) = Inr 75"
    by (simp add: run_composed(1) [OF assms(1,2)] run_monitor_raises(1) [OF assms(3,4)])
  have calls: "session_calls (fst (run env args)) = [submit_call env args archs bid, MonitorBuilds]"
    by (simp add: run_composed_calls [OF assms(1,2)] run_monitor_raises(2) [OF assms(3,4)])
  have "Cleanup \<notin> set (session_calls (fst (run env args)))"
    unfolding calls by (simp add: submit_call_def)
  then have none: "Cleanup \<notin> set (fst (run env args))"
    by (simp add: set_session_calls)
  have "fst (run_monitor env bid builds) \<noteq> []"
    using run_monitor_raises(2) [OF assms(3,4), of bid builds] by auto
  then have "last (fst (run env args)) = last (fst (run_monitor env bid builds))"
    by (simp add: run_composed(2) [OF assms(1,2)])
  then have msg: "last (fst (run env args)) = EmitMessage (timeout_message env (Some bid))"
    by (simp add: run_monitor_raises(3) [OF assms(3,4)])
  have shape: "timeout_message env (Some bid) =
       ''Timed out waiting for build.'' @ [CHR 0x0A] @ ''To resume, run '' @
       py_repr env (resume_command env (Some bid))"
    by (simp add: timeout_message_def)
  note rec = resume_command_recover [of env "Some bid"]
  have bid: "bid \<noteq> [] \<longrightarrow>
        resume_command env (Some bid) =
          app_name env @ '' remote-build --recover --build-id='' @ bid \<and>
        sublist (''--build-id='' @ bid) (resume_command env (Some bid))"
  proof
    assume b: "bid \<noteq> []"
    have eq: "resume_command env (Some bid) =
        (app_name env @ '' remote-build --recover '') @ (''--build-id='' @ bid) @ []"
      using b by (simp add: resume_command_def)
    have "sublist (''--build-id='' @ bid) (resume_command env (Some bid))"
      unfolding eq by (rule sublist_appendI)
    with b show "resume_command env (Some bid) =
          app_name env @ '' remote-build --recover --build-id='' @ bid \<and>
        sublist (''--build-id='' @ bid) (resume_command env (Some bid))"
      by (simp add: resume_command_build_id)
  qed
  have quoted: "py_repr env (resume_command env (Some bid)) =
        [CHR 0x27] @ resume_command env (Some bid) @ [CHR 0x27] \<longrightarrow>
        sublist ''--recover'' (timeout_message env (Some bid)) \<and>
        (bid \<noteq> [] \<longrightarrow> sublist (''--build-id='' @ bid) (timeout_message env (Some bid)))"
  proof
    assume q: "py_repr env (resume_command env (Some bid)) =
        [CHR 0x27] @ resume_command env (Some bid) @ [CHR 0x27]"
    have m: "timeout_message env (Some bid) =
        (''Timed out waiting for build.'' @ [CHR 0x0A] @ ''To resume, run '') @ [CHR 0x27] @
        resume_command env (Some bid) @ [CHR 0x27]"
      unfolding shape q by simp
    have r: "sublist ''--recover'' (timeout_message env (Some bid))"
      unfolding m by (rule sublist_quoted [OF rec])
    have i: "bid \<noteq> [] \<longrightarrow> sublist (''--build-id='' @ bid) (timeout_message env (Some bid))"
    proof
      assume "bid \<noteq> []"
      with bid have "sublist (''--build-id='' @ bid) (resume_command env (Some bid))" by blast
      then show "sublist (''--build-id='' @ bid) (timeout_message env (Some bid))"
        unfolding m by (rule sublist_quoted)
    qed
    from r i show "sublist ''--recover'' (timeout_message env (Some bid)) \<and>
        (bid \<noteq> [] \<longrightarrow> sublist (''--build-id='' @ bid) (timeout_message env (Some bid)))"
      by (intro conjI)
  qed
  have tf: "EX_TEMPFAIL = 75" by (simp add: EX_TEMPFAIL_def)
  from code tf msg shape rec bid quoted calls none
  show ?thesis by (intro conjI)
qed

lemma timeout_env_run:
  "snd (run_prepare timeout_env example_args) = Inr ([''arm64'', ''amd64''], ''abc123'')"
  "snd (run_submit timeout_env example_args [''arm64'', ''amd64''] ''abc123'') =
     Inr (Inr [''arm64'', ''amd64''])"
  "snd (monitor_builds timeout_env) = Some (TimeoutError ''timed out'')"
  "py_repr timeout_env (resume_command timeout_env (Some ''abc123'')) =
     [CHR 0x27] @ ''snapcraft remote-build --recover --build-id=abc123'' @ [CHR 0x27]"
  by code_simp+

theorem run_timeout_witness:
  "snd (run_prepare timeout_env example_args) = Inr ([''arm64'', ''amd64''], ''abc123'') \<and>
   snd (run_submit timeout_env example_args [''arm64'', ''amd64''] ''abc123'') =
     Inr (Inr [''arm64'', ''amd64'']) \<and>
   snd (monitor_builds timeout_env) = Some (TimeoutError ''timed out'') \<and>
   is_TimeoutError (TimeoutError ''timed out'') \<and> ''abc123'' \<noteq> [] \<and>
   py_repr timeout_env (resume_command timeout_env (Some ''abc123'')) =
     [CHR 0x27] @ resume_command timeout_env (Some ''abc123'') @ [CHR 0x27] \<and>
   snd (run timeout_env example_args) = Inr 75 \<and>
   last (fst (run timeout_env example_args)) =
     EmitMessage (timeout_message timeout_env (Some ''abc123'')) \<and>
   timeout_message timeout_env (Some ''abc123'') =
     ''Timed out waiting for build.'' @ [CHR 0x0A] @
     ''To resume, run '' @ [CHR 0x27] @
     ''snapcraft remote-build --recover --build-id=abc123'' @ [CHR 0x27] \<and>
   sublist ''--recover'' (timeout_message timeout_env (Some ''abc123'')) \<and>
   sublist (''--build-id='' @ ''abc123'') (timeout_message timeout_env (Some ''abc123'')) \<and>
   Cleanup \<notin> set (fst (run timeout_env example_args))"
proof -
  have t: "is_TimeoutError (TimeoutError ''timed out'')" by simp
  have n: "''abc123'' \<noteq> []" by simp
  have q: "py_repr timeout_env (resume_command timeout_env (Some ''abc123'')) =
     [CHR 0x27] @ resume_command timeout_env (Some ''abc123'') @ [CHR 0x27]"
    by code_simp
  have m: "timeout_message timeout_env (Some ''abc123'') =
     ''Timed out waiting for build.'' @ [CHR 0x0A] @
     ''To resume, run '' @ [CHR 0x27] @
     ''snapcraft remote-build --recover --build-id=abc123'' @ [CHR 0x27]"
    by code_simp
  from run_timeout [OF timeout_env_run(1,2,3) t] n t q m timeout_env_run(1,2,3)
  show ?thesis by blast
qed

lemma run_submit_start_raises:
  assumes "\<not> recover args" and "start_builds env (project_dir env) archs = Inl e"
  shows "is_RemoteBuildError e \<or> is_LaunchpadError e \<Longrightarrow>
           snd (run_submit env args archs bid) = Inl e"
    and "is_RemoteBuildError e \<or> is_LaunchpadError e \<Longrightarrow>
           session_calls (fst (run_submit env args archs bid)) =
             [StartBuilds (project_dir env) archs, Cleanup]"
    and "\<not> is_RemoteBuildError e \<Longrightarrow> \<not> is_LaunchpadError e \<Longrightarrow> is_Conflict e \<Longrightarrow>
           snd (run_submit env args archs bid) = Inr (Inl EX_TEMPFAIL)"
    and "\<not> is_RemoteBuildError e \<Longrightarrow> \<not> is_LaunchpadError e \<Longrightarrow> is_Conflict e \<Longrightarrow>
           session_calls (fst (run_submit env args archs bid)) =
             [StartBuilds (project_dir env) archs, Cleanup]"
    and "\<not> is_RemoteBuildError e \<Longrightarrow> \<not> is_LaunchpadError e \<Longrightarrow> \<not> is_Conflict e \<Longrightarrow>
           snd (run_submit env args archs bid) = Inl e"
    and "\<not> is_RemoteBuildError e \<Longrightarrow> \<not> is_LaunchpadError e \<Longrightarrow> \<not> is_Conflict e \<Longrightarrow>
           session_calls (fst (run_submit env args archs bid)) =
             [StartBuilds (project_dir env) archs]"
  using assms by (simp_all add: run_submit_def Let_def)

lemma is_Conflict_only:
  "is_Conflict e \<Longrightarrow> \<not> is_RemoteBuildError e \<and> \<not> is_LaunchpadError e"
  by (cases e) simp_all

text \<open>
  C2. On a fresh submission, when \<^verbatim>\<open>start_builds\<close> raises a conflict, the calls on the
  session are \<^verbatim>\<open>start_builds\<close> and then \<^verbatim>\<open>cleanup\<close>, once, and the command
  returns EX_TEMPFAIL, which is 75: no exception leaves it.
\<close>

theorem run_conflict:
  assumes "snd (run_prepare env args) = Inr (archs, bid)"
    and "\<not> recover args"
    and "start_builds env (project_dir env) archs = Inl e"
    and "is_Conflict e"
  shows "snd (run env args) = Inr EX_TEMPFAIL \<and> EX_TEMPFAIL = 75 \<and>
     session_calls (fst (run env args)) = [StartBuilds (project_dir env) archs, Cleanup] \<and>
     count_list (fst (run env args)) Cleanup = 1"
proof -
  from is_Conflict_only [OF assms(4)]
  have n: "\<not> is_RemoteBuildError e" "\<not> is_LaunchpadError e" by simp_all
  note sub = run_submit_start_raises(3,4) [OF assms(2,3) n assms(4), of bid]
  have code: "snd (run env args) = Inr EX_TEMPFAIL"
    by (rule run_returns_at_submit(1) [OF assms(1) sub(1)])
  have calls: "session_calls (fst (run env args)) =
      [StartBuilds (project_dir env) archs, Cleanup]"
    by (simp only: run_returns_at_submit(2) [OF assms(1) sub(1)] sub(2))
  have "count_list (session_calls (fst (run env args))) Cleanup = 1"
    unfolding calls by simp
  then have once: "count_list (fst (run env args)) Cleanup = 1"
    by (simp add: count_list_session_calls)
  have tf: "EX_TEMPFAIL = 75" by (simp add: EX_TEMPFAIL_def)
  from code tf calls once show ?thesis by (intro conjI)
qed

lemma conflict_env_run:
  "snd (run_prepare conflict_env example_args) = Inr ([''arm64'', ''amd64''], ''abc123'')"
  "\<not> recover example_args"
  "start_builds conflict_env (project_dir conflict_env) [''arm64'', ''amd64''] =
     Inl (Conflict ''HTTP 409'')"
  "is_Conflict (Conflict ''HTTP 409'')"
  "project_dir conflict_env = ''/home/user/hello''"
  by code_simp+

theorem run_conflict_witness:
  "snd (run_prepare conflict_env example_args) = Inr ([''arm64'', ''amd64''], ''abc123'') \<and>
   \<not> recover example_args \<and>
   start_builds conflict_env (project_dir conflict_env) [''arm64'', ''amd64''] =
     Inl (Conflict ''HTTP 409'') \<and>
   is_Conflict (Conflict ''HTTP 409'') \<and>
   snd (run conflict_env example_args) = Inr 75 \<and>
   session_calls (fst (run conflict_env example_args)) =
     [StartBuilds (project_dir conflict_env) [''arm64'', ''amd64''], Cleanup] \<and>
   count_list (fst (run conflict_env example_args)) Cleanup = 1"
  using run_conflict [OF conflict_env_run(1,2,3,4)] conflict_env_run
  by (simp only: simp_thms)

text \<open>
  C6 as stated fails: \<^verbatim>\<open>start_builds\<close> raises a server error, the command raises it,
  and the run ends with the call of \<^verbatim>\<open>start_builds\<close>: \<^verbatim>\<open>cleanup\<close> is not called.
\<close>

theorem run_other_submission_error_counterexample:
  "start_builds server_error_env (project_dir server_error_env) [''arm64'', ''amd64''] =
     Inl (OtherException ''lazr.restfulclient.errors.ServerError'') \<and>
   fst (run server_error_env example_args) =
     [EmitProgress
        ''remote-build is experimental and is subject to change. Use with caution.'' True,
      EmitDebug ''Build plan: [...]'',
      EmitTrace ''Project directory: /home/user/hello'',
      EmitDebug ''Using the project's build plan'',
      EmitDebug ''Architectures to build for: arm64, amd64'',
      EmitProgress ''Starting new build. It may take a while to upload large projects.'' False,
      StartBuilds ''/home/user/hello'' [''arm64'', ''amd64'']] \<and>
   snd (run server_error_env example_args) =
     Inl (OtherException ''lazr.restfulclient.errors.ServerError'')"
  by code_simp

text \<open>
  C6, amended. On a fresh submission, when \<^verbatim>\<open>start_builds\<close> raises a
  \<^verbatim>\<open>RemoteBuildError\<close> or a \<^verbatim>\<open>LaunchpadError\<close>, \<^verbatim>\<open>cleanup\<close> is called once and
  the command raises the same exception. Any other exception that is not a conflict
  leaves the command unchanged as well, and \<^verbatim>\<open>cleanup\<close> is not called.
\<close>

theorem run_submission_failure:
  assumes "snd (run_prepare env args) = Inr (archs, bid)"
    and "\<not> recover args"
    and "start_builds env (project_dir env) archs = Inl e"
  shows "(is_RemoteBuildError e \<or> is_LaunchpadError e \<longrightarrow>
            snd (run env args) = Inl e \<and>
            session_calls (fst (run env args)) =
              [StartBuilds (project_dir env) archs, Cleanup] \<and>
            count_list (fst (run env args)) Cleanup = 1) \<and>
         (\<not> is_RemoteBuildError e \<and> \<not> is_LaunchpadError e \<and> \<not> is_Conflict e \<longrightarrow>
            snd (run env args) = Inl e \<and>
            session_calls (fst (run env args)) = [StartBuilds (project_dir env) archs] \<and>
            count_list (fst (run env args)) Cleanup = 0)"
proof (intro conjI impI)
  assume c: "is_RemoteBuildError e \<or> is_LaunchpadError e"
  note sub = run_submit_start_raises(1,2) [OF assms(2,3) c, of bid]
  show "snd (run env args) = Inl e"
    by (rule run_stops_at_submit(1) [OF assms(1) sub(1)])
  show calls: "session_calls (fst (run env args)) =
      [StartBuilds (project_dir env) archs, Cleanup]"
    by (simp only: run_stops_at_submit(2) [OF assms(1) sub(1)] sub(2))
  have "count_list (session_calls (fst (run env args))) Cleanup = 1"
    unfolding calls by simp
  then show "count_list (fst (run env args)) Cleanup = 1"
    by (simp add: count_list_session_calls)
next
  assume "\<not> is_RemoteBuildError e \<and> \<not> is_LaunchpadError e \<and> \<not> is_Conflict e"
  then have n: "\<not> is_RemoteBuildError e" "\<not> is_LaunchpadError e" "\<not> is_Conflict e"
    by simp_all
  note sub = run_submit_start_raises(5,6) [OF assms(2,3) n, of bid]
  show "snd (run env args) = Inl e"
    by (rule run_stops_at_submit(1) [OF assms(1) sub(1)])
  show calls: "session_calls (fst (run env args)) = [StartBuilds (project_dir env) archs]"
    by (simp only: run_stops_at_submit(2) [OF assms(1) sub(1)] sub(2))
  have "count_list (session_calls (fst (run env args))) Cleanup = 0"
    unfolding calls by simp
  then show "count_list (fst (run env args)) Cleanup = 0"
    by (simp add: count_list_session_calls)
qed

lemma launchpad_error_env_run:
  "snd (run_prepare launchpad_error_env example_args) = Inr ([''arm64'', ''amd64''], ''abc123'')"
  "start_builds launchpad_error_env (project_dir launchpad_error_env) [''arm64'', ''amd64''] =
     Inl (LaunchpadError ''recipe not created'')"
  "\<not> recover example_args"
  by code_simp+

lemma server_error_env_run:
  "snd (run_prepare server_error_env example_args) = Inr ([''arm64'', ''amd64''], ''abc123'')"
  "start_builds server_error_env (project_dir server_error_env) [''arm64'', ''amd64''] =
     Inl (OtherException ''lazr.restfulclient.errors.ServerError'')"
  by code_simp+

theorem run_submission_failure_witness:
  "snd (run_prepare launchpad_error_env example_args) =
     Inr ([''arm64'', ''amd64''], ''abc123'') \<and>
   \<not> recover example_args \<and>
   start_builds launchpad_error_env (project_dir launchpad_error_env) [''arm64'', ''amd64''] =
     Inl (LaunchpadError ''recipe not created'') \<and>
   is_LaunchpadError (LaunchpadError ''recipe not created'') \<and>
   snd (run launchpad_error_env example_args) = Inl (LaunchpadError ''recipe not created'') \<and>
   count_list (fst (run launchpad_error_env example_args)) Cleanup = 1 \<and>
   snd (run_prepare server_error_env example_args) =
     Inr ([''arm64'', ''amd64''], ''abc123'') \<and>
   start_builds server_error_env (project_dir server_error_env) [''arm64'', ''amd64''] =
     Inl (OtherException ''lazr.restfulclient.errors.ServerError'') \<and>
   snd (run server_error_env example_args) =
     Inl (OtherException ''lazr.restfulclient.errors.ServerError'') \<and>
   count_list (fst (run server_error_env example_args)) Cleanup = 0"
  using run_submission_failure [OF launchpad_error_env_run(1,3,2)]
    run_submission_failure [OF server_error_env_run(1) launchpad_error_env_run(3)
      server_error_env_run(2)]
    launchpad_error_env_run server_error_env_run
  by simp

text \<open>
  C9. When the monitoring is interrupted from the keyboard, the command returns EX_OK,
  which is 0. If the operator confirms, the calls on the session end with
  \<^verbatim>\<open>cancel_builds\<close> and then \<^verbatim>\<open>cleanup\<close>; if the operator declines, neither is
  called.
\<close>

theorem run_keyboard_interrupt:
  assumes "snd (run_prepare env args) = Inr (archs, bid)"
    and "snd (run_submit env args archs bid) = Inr (Inr builds)"
    and "snd (monitor_builds env) = Some KeyboardInterrupt"
  shows "snd (run env args) = Inr EX_OK \<and> EX_OK = 0 \<and>
     (confirm_with_user env ''Cancel builds?'' True \<longrightarrow>
        session_calls (fst (run env args)) =
          [submit_call env args archs bid, MonitorBuilds, CancelBuilds, Cleanup]) \<and>
     (\<not> confirm_with_user env ''Cancel builds?'' True \<longrightarrow>
        session_calls (fst (run env args)) = [submit_call env args archs bid, MonitorBuilds] \<and>
        CancelBuilds \<notin> set (fst (run env args)) \<and> Cleanup \<notin> set (fst (run env args)))"
proof -
  have code: "snd (run env args) = Inr EX_OK"
    by (simp add: run_composed(1) [OF assms(1,2)] run_monitor_raises(4) [OF assms(3)])
  have calls: "session_calls (fst (run env args)) =
      submit_call env args archs bid #
      (if confirm_with_user env ''Cancel builds?'' True
       then [MonitorBuilds, CancelBuilds, Cleanup] else [MonitorBuilds])"
    by (simp only: run_composed_calls [OF assms(1,2)] run_monitor_raises(5) [OF assms(3) refl])
  have yes: "confirm_with_user env ''Cancel builds?'' True \<longrightarrow>
        session_calls (fst (run env args)) =
          [submit_call env args archs bid, MonitorBuilds, CancelBuilds, Cleanup]"
    using calls by simp
  have no: "\<not> confirm_with_user env ''Cancel builds?'' True \<longrightarrow>
        session_calls (fst (run env args)) = [submit_call env args archs bid, MonitorBuilds] \<and>
        CancelBuilds \<notin> set (fst (run env args)) \<and> Cleanup \<notin> set (fst (run env args))"
  proof
    assume d: "\<not> confirm_with_user env ''Cancel builds?'' True"
    with calls have c: "session_calls (fst (run env args)) =
        [submit_call env args archs bid, MonitorBuilds]" by simp
    have "CancelBuilds \<notin> set (session_calls (fst (run env args)))"
      "Cleanup \<notin> set (session_calls (fst (run env args)))"
      unfolding c by (simp_all add: submit_call_def)
    then have "CancelBuilds \<notin> set (fst (run env args))" "Cleanup \<notin> set (fst (run env args))"
      by (simp_all add: set_session_calls)
    with c show "session_calls (fst (run env args)) =
          [submit_call env args archs bid, MonitorBuilds] \<and>
        CancelBuilds \<notin> set (fst (run env args)) \<and> Cleanup \<notin> set (fst (run env args))"
      by (intro conjI)
  qed
  have ok: "EX_OK = 0" by (simp add: EX_OK_def)
  from code ok yes no show ?thesis by (intro conjI)
qed

lemma interrupt_env_run:
  "snd (run_prepare interrupt_env example_args) = Inr ([''arm64'', ''amd64''], ''abc123'')"
  "snd (run_submit interrupt_env example_args [''arm64'', ''amd64''] ''abc123'') =
     Inr (Inr [''arm64'', ''amd64''])"
  "snd (monitor_builds interrupt_env) = Some KeyboardInterrupt"
  "confirm_with_user interrupt_env ''Cancel builds?'' True"
  "submit_call interrupt_env example_args [''arm64'', ''amd64''] ''abc123'' =
     StartBuilds ''/home/user/hello'' [''arm64'', ''amd64'']"
  by code_simp+

lemma interrupt_declined_env_run:
  "snd (run_prepare interrupt_declined_env example_args) =
     Inr ([''arm64'', ''amd64''], ''abc123'')"
  "snd (run_submit interrupt_declined_env example_args [''arm64'', ''amd64''] ''abc123'') =
     Inr (Inr [''arm64'', ''amd64''])"
  "snd (monitor_builds interrupt_declined_env) = Some KeyboardInterrupt"
  "\<not> confirm_with_user interrupt_declined_env ''Cancel builds?'' True"
  "submit_call interrupt_declined_env example_args [''arm64'', ''amd64''] ''abc123'' =
     StartBuilds ''/home/user/hello'' [''arm64'', ''amd64'']"
  by code_simp+

theorem run_keyboard_interrupt_witness:
  "snd (run_prepare interrupt_env example_args) = Inr ([''arm64'', ''amd64''], ''abc123'') \<and>
   snd (run_submit interrupt_env example_args [''arm64'', ''amd64''] ''abc123'') =
     Inr (Inr [''arm64'', ''amd64'']) \<and>
   snd (monitor_builds interrupt_env) = Some KeyboardInterrupt \<and>
   confirm_with_user interrupt_env ''Cancel builds?'' True \<and>
   snd (run interrupt_env example_args) = Inr 0 \<and>
   session_calls (fst (run interrupt_env example_args)) =
     [StartBuilds ''/home/user/hello'' [''arm64'', ''amd64''], MonitorBuilds, CancelBuilds,
      Cleanup] \<and>
   snd (run_prepare interrupt_declined_env example_args) =
     Inr ([''arm64'', ''amd64''], ''abc123'') \<and>
   snd (run_submit interrupt_declined_env example_args [''arm64'', ''amd64''] ''abc123'') =
     Inr (Inr [''arm64'', ''amd64'']) \<and>
   snd (monitor_builds interrupt_declined_env) = Some KeyboardInterrupt \<and>
   \<not> confirm_with_user interrupt_declined_env ''Cancel builds?'' True \<and>
   snd (run interrupt_declined_env example_args) = Inr 0 \<and>
   session_calls (fst (run interrupt_declined_env example_args)) =
     [StartBuilds ''/home/user/hello'' [''arm64'', ''amd64''], MonitorBuilds] \<and>
   CancelBuilds \<notin> set (fst (run interrupt_declined_env example_args)) \<and>
   Cleanup \<notin> set (fst (run interrupt_declined_env example_args))"
  using run_keyboard_interrupt [OF interrupt_env_run(1,2,3)]
    run_keyboard_interrupt [OF interrupt_declined_env_run(1,2,3)]
    interrupt_env_run interrupt_declined_env_run
  by (simp add: EX_OK_def)

lemma filter_StartBuilds_session_calls:
  "filter is_StartBuilds (session_calls evs) = filter is_StartBuilds evs"
proof -
  have "\<And>ev. is_StartBuilds ev \<Longrightarrow> is_session_call ev"
  proof -
    fix ev show "is_StartBuilds ev \<Longrightarrow> is_session_call ev" by (cases ev) simp_all
  qed
  then have "\<And>ev. (is_session_call ev \<and> is_StartBuilds ev) = is_StartBuilds ev" by blast
  then show ?thesis by (simp add: session_calls_def)
qed

lemma run_monitor_normal:
  assumes "snd (monitor_builds env) = None"
  shows "snd (run_monitor env bid builds) = Inr (snd (complete env builds (final_states env)))"
    and "session_calls (fst (run_monitor env bid builds)) =
           [MonitorBuilds, FetchLogs (cwd env), FetchArtifacts (cwd env), Cleanup]"
proof -
  have rc: "snd (complete env builds (final_states env)) \<noteq> EX_TEMPFAIL"
    by (simp add: complete_code EX_TEMPFAIL_def)
  show "snd (run_monitor env bid builds) = Inr (snd (complete env builds (final_states env)))"
    using monitor_and_complete_normal [OF assms, of "Some bid" builds] rc
    by (cases "monitor_and_complete env (Some bid) builds")
       (simp add: run_monitor_def run_finish_def)
  show "session_calls (fst (run_monitor env bid builds)) =
           [MonitorBuilds, FetchLogs (cwd env), FetchArtifacts (cwd env), Cleanup]"
    using monitor_and_complete_normal [OF assms, of "Some bid" builds] rc
    by (cases "monitor_and_complete env (Some bid) builds")
       (simp add: run_monitor_def run_finish_def)
qed

lemma run_monitor_no_start:
  "filter is_StartBuilds (fst (run_monitor env bid builds)) = []"
proof (cases "snd (monitor_builds env)")
  case None
  have "filter is_StartBuilds (session_calls (fst (run_monitor env bid builds))) = []"
    by (simp add: run_monitor_normal(2) [OF None])
  then show ?thesis by (simp only: filter_StartBuilds_session_calls)
next
  case (Some e)
  have "session_calls (fst (run_monitor env bid builds)) \<in>
      {[MonitorBuilds], [MonitorBuilds, Cleanup], [MonitorBuilds, CancelBuilds, Cleanup]}"
    using monitor_and_complete_raises(1,2) [OF Some, of "Some bid" builds]
    by (cases "monitor_and_complete env (Some bid) builds")
       (auto simp: run_monitor_def run_finish_def EX_TEMPFAIL_def split: if_splits)
  then have "filter is_StartBuilds (session_calls (fst (run_monitor env bid builds))) = []"
    by auto
  then show ?thesis by (simp only: filter_StartBuilds_session_calls)
qed

lemma run_submit_recover:
  assumes "recover args"
  shows "fst (run_submit env args archs bid) =
           [EmitProgress (''Recovering build '' @ bid) False, ResumeBuilds bid]"
    and "snd (run_submit env args archs bid) =
           (case resume_builds env bid of Inl e \<Rightarrow> Inl e | Inr builds \<Rightarrow> Inr (Inr builds))"
  using assms by (simp_all add: run_submit_def Let_def split: sum.split)

lemma recover_never_starts:
  assumes "recover args"
  shows "filter is_StartBuilds (fst (run env args)) = []"
proof -
  have p: "filter is_StartBuilds (fst (run_prepare env args)) = []"
    using run_prepare_calls [of env args] filter_StartBuilds_session_calls
    by (metis filter.simps(1))
  have s: "\<And>archs bid. filter is_StartBuilds (fst (run_submit env args archs bid)) = []"
    by (simp add: run_submit_recover(1) [OF assms])
  show ?thesis
  proof (cases "run_prepare env args")
    case (Pair evs1 r1)
    show ?thesis
    proof (cases r1)
      case (Inl e)
      with Pair p show ?thesis by (simp add: run_def)
    next
      case (Inr ab)
      obtain archs bid where ab: "ab = (archs, bid)" by (cases ab)
      obtain evs2 r2 where sub: "run_submit env args archs bid = (evs2, r2)"
        by (cases "run_submit env args archs bid")
      from s [of archs bid] sub have s2: "filter is_StartBuilds evs2 = []" by simp
      from p Pair have p1: "filter is_StartBuilds evs1 = []" by simp
      show ?thesis
      proof (cases r2)
        case (Inl e)
        with Pair Inr ab sub p1 s2 show ?thesis by (simp add: run_def)
      next
        case r: (Inr cb)
        show ?thesis
        proof (cases cb)
          case (Inl code)
          with Pair Inr ab sub r p1 s2 show ?thesis by (simp add: run_def)
        next
          case b: (Inr builds)
          with Pair Inr ab sub r p1 s2 run_monitor_no_start [of env bid builds]
          show ?thesis by (simp add: run_def case_prod_beta)
        qed
      qed
    qed
  qed
qed

text \<open>
  C10. With \<^verbatim>\<open>--recover\<close>, \<^verbatim>\<open>start_builds\<close> is never called; once the preparation
  has succeeded, the first call on the session is \<^verbatim>\<open>resume_builds\<close> with the build
  id, and if it raises, the command raises the same exception and calls nothing else
  on the session: neither \<^verbatim>\<open>cancel_builds\<close> nor \<^verbatim>\<open>cleanup\<close>.
\<close>

theorem run_recover:
  "(recover args \<longrightarrow> filter is_StartBuilds (fst (run env args)) = []) \<and>
   (recover args \<and> snd (run_prepare env args) = Inr (archs, bid) \<longrightarrow>
      take 1 (session_calls (fst (run env args))) = [ResumeBuilds bid] \<and>
      (resume_builds env bid = Inl e \<longrightarrow>
         snd (run env args) = Inl e \<and>
         session_calls (fst (run env args)) = [ResumeBuilds bid] \<and>
         CancelBuilds \<notin> set (fst (run env args)) \<and>
         Cleanup \<notin> set (fst (run env args))))"
proof (intro conjI impI)
  assume "recover args"
  then show "filter is_StartBuilds (fst (run env args)) = []"
    by (rule recover_never_starts)
next
  assume a: "recover args \<and> snd (run_prepare env args) = Inr (archs, bid)"
  then have r: "recover args" and p: "snd (run_prepare env args) = Inr (archs, bid)"
    by simp_all
  show "take 1 (session_calls (fst (run env args))) = [ResumeBuilds bid]"
  proof (cases "resume_builds env bid")
    case (Inl e')
    then have "snd (run_submit env args archs bid) = Inl e'"
      by (simp add: run_submit_recover(2) [OF r])
    from run_stops_at_submit(2) [OF p this] show ?thesis
      by (simp add: run_submit_recover(1) [OF r])
  next
    case (Inr builds)
    then have "snd (run_submit env args archs bid) = Inr (Inr builds)"
      by (simp add: run_submit_recover(2) [OF r])
    from run_composed_calls [OF p this] r show ?thesis
      by (simp add: submit_call_def)
  qed
next
  assume a: "recover args \<and> snd (run_prepare env args) = Inr (archs, bid)"
    and e: "resume_builds env bid = Inl e"
  from a have r: "recover args" and p: "snd (run_prepare env args) = Inr (archs, bid)"
    by simp_all
  from e have s: "snd (run_submit env args archs bid) = Inl e"
    by (simp add: run_submit_recover(2) [OF r])
  show "snd (run env args) = Inl e"
    by (rule run_stops_at_submit(1) [OF p s])
  show calls: "session_calls (fst (run env args)) = [ResumeBuilds bid]"
    using run_stops_at_submit(2) [OF p s] by (simp add: run_submit_recover(1) [OF r])
  have "CancelBuilds \<notin> set (session_calls (fst (run env args)))"
    "Cleanup \<notin> set (session_calls (fst (run env args)))"
    unfolding calls by simp_all
  then show "CancelBuilds \<notin> set (fst (run env args))" "Cleanup \<notin> set (fst (run env args))"
    by (simp_all add: set_session_calls)
qed

lemma resume_error_env_run:
  "recover recover_args"
  "snd (run_prepare resume_error_env recover_args) = Inr ([''arm64'', ''amd64''], ''abc123'')"
  "resume_builds resume_error_env ''abc123'' = Inl (LaunchpadError ''repository not found'')"
  by code_simp+

theorem run_recover_witness:
  "recover recover_args \<and>
   snd (run_prepare resume_error_env recover_args) = Inr ([''arm64'', ''amd64''], ''abc123'') \<and>
   resume_builds resume_error_env ''abc123'' = Inl (LaunchpadError ''repository not found'') \<and>
   filter is_StartBuilds (fst (run resume_error_env recover_args)) = [] \<and>
   snd (run resume_error_env recover_args) = Inl (LaunchpadError ''repository not found'') \<and>
   session_calls (fst (run resume_error_env recover_args)) = [ResumeBuilds ''abc123''] \<and>
   CancelBuilds \<notin> set (fst (run resume_error_env recover_args)) \<and>
   Cleanup \<notin> set (fst (run resume_error_env recover_args))"
  using run_recover [of recover_args resume_error_env "[''arm64'', ''amd64'']" "''abc123''"
      "LaunchpadError ''repository not found''"]
    resume_error_env_run
  by simp

text \<open>
  C7. When the monitoring sequence ends normally, the calls on the session are
  \<^verbatim>\<open>monitor_builds\<close>, \<^verbatim>\<open>fetch_logs\<close> and \<^verbatim>\<open>fetch_artifacts\<close>, whatever the final
  states are, and the return code is 0 if no final state is FAILED, the logs are not
  empty and the artifacts are not empty, and 1 otherwise.
\<close>

theorem monitor_and_complete_return_code:
  assumes "snd (monitor_builds env) = None"
  shows "session_calls (fst (monitor_and_complete env build_id builds)) =
           [MonitorBuilds, FetchLogs (cwd env), FetchArtifacts (cwd env)] \<and>
         snd (monitor_and_complete env build_id builds) =
           Inr (if (\<forall>item \<in> set (final_states env). snd item \<noteq> FAILED) \<and>
                   fetch_logs env (cwd env) \<noteq> [] \<and> fetch_artifacts env (cwd env) \<noteq> []
                then 0 else 1)"
  by (simp only: monitor_and_complete_normal [OF assms] complete_code simp_thms)

lemma completion_examples:
  "snd (monitor_builds example_env) = None"
  "snd (monitor_builds failed_env) = None"
  "snd (monitor_builds no_artifacts_env) = None"
  "snd (monitor_builds no_logs_env) = None"
  "final_states example_env = [(''arm64'', SUCCESS), (''amd64'', SUCCESS)]"
  "final_states failed_env = [(''arm64'', SUCCESS), (''amd64'', FAILED)]"
  "fetch_logs example_env (cwd example_env) \<noteq> []"
  "fetch_artifacts example_env (cwd example_env) \<noteq> []"
  "fetch_artifacts no_artifacts_env (cwd no_artifacts_env) = []"
  "fetch_logs no_logs_env (cwd no_logs_env) = []"
  by code_simp+

theorem monitor_and_complete_return_code_witness:
  "snd (monitor_builds example_env) = None \<and>
   snd (monitor_and_complete example_env (Some ''abc123'') [''arm64'', ''amd64'']) = Inr 0 \<and>
   session_calls (fst (monitor_and_complete example_env (Some ''abc123'') [''arm64'', ''amd64''])) =
     [MonitorBuilds, FetchLogs (cwd example_env), FetchArtifacts (cwd example_env)] \<and>
   snd (monitor_builds failed_env) = None \<and>
   snd (monitor_and_complete failed_env (Some ''abc123'') [''arm64'', ''amd64'']) = Inr 1 \<and>
   session_calls (fst (monitor_and_complete failed_env (Some ''abc123'') [''arm64'', ''amd64''])) =
     [MonitorBuilds, FetchLogs (cwd failed_env), FetchArtifacts (cwd failed_env)] \<and>
   snd (monitor_builds no_artifacts_env) = None \<and>
   snd (monitor_and_complete no_artifacts_env (Some ''abc123'') [''arm64'', ''amd64'']) = Inr 1 \<and>
   snd (monitor_builds no_logs_env) = None \<and>
   snd (monitor_and_complete no_logs_env (Some ''abc123'') [''arm64'', ''amd64'']) = Inr 1"
  using monitor_and_complete_return_code [OF completion_examples(1), of "Some ''abc123''"
      "[''arm64'', ''amd64'']"]
    monitor_and_complete_return_code [OF completion_examples(2), of "Some ''abc123''"
      "[''arm64'', ''amd64'']"]
    monitor_and_complete_return_code [OF completion_examples(3), of "Some ''abc123''"
      "[''arm64'', ''amd64'']"]
    monitor_and_complete_return_code [OF completion_examples(4), of "Some ''abc123''"
      "[''arm64'', ''amd64'']"]
    completion_examples
  by simp

subsection \<open>The progress line of each snapshot\<close>

lemma monitor_loop_events:
  "fst (monitor_loop init snaps) = map (\<lambda>s. EmitProgress (progress_line s) False) snaps"
  by (induction snaps arbitrary: init) (simp_all add: case_prod_beta)

lemma monitor_and_complete_ticks:
  "prefix ([EmitProgress ''Monitoring build'' False, MonitorBuilds] @
           map (\<lambda>s. EmitProgress (progress_line s) False) (fst (monitor_builds env)))
     (fst (monitor_and_complete env build_id builds))"
proof -
  have "\<exists>rest. fst (monitor_and_complete env build_id builds) =
      ([EmitProgress ''Monitoring build'' False, MonitorBuilds] @
       map (\<lambda>s. EmitProgress (progress_line s) False) (fst (monitor_builds env))) @ rest"
    by (cases "snd (monitor_builds env)")
       (simp_all add: monitor_and_complete_def Let_def case_prod_beta monitor_loop_events)
  then show ?thesis by (auto simp: prefix_def)
qed

lemma run_monitor_prefix:
  "prefix (fst (monitor_and_complete env (Some bid) builds)) (fst (run_monitor env bid builds))"
proof -
  have "\<exists>rest. fst (run_monitor env bid builds) =
      fst (monitor_and_complete env (Some bid) builds) @ rest"
    by (cases "monitor_and_complete env (Some bid) builds")
       (auto simp: run_monitor_def case_prod_beta split: sum.split)
  then show ?thesis by (auto simp: prefix_def)
qed

lemma run_ticks:
  assumes "snd (run_prepare env args) = Inr (archs, bid)"
    and "snd (run_submit env args archs bid) = Inr (Inr builds)"
  shows "prefix (fst (run_prepare env args) @ fst (run_submit env args archs bid) @
                 [EmitProgress ''Monitoring build'' False, MonitorBuilds] @
                 map (\<lambda>s. EmitProgress (progress_line s) False) (fst (monitor_builds env)))
           (fst (run env args))"
proof -
  have "prefix ([EmitProgress ''Monitoring build'' False, MonitorBuilds] @
                 map (\<lambda>s. EmitProgress (progress_line s) False) (fst (monitor_builds env)))
      (fst (run_monitor env bid builds))"
    using monitor_and_complete_ticks [of env "Some bid" builds] run_monitor_prefix [of env bid builds]
    by (rule prefix_order.order_trans)
  then show ?thesis
    unfolding run_composed(2) [OF assms] by simp
qed


text \<open>
  C8. The monitoring loop emits one progress line for each snapshot of the sequence, in
  order, and these are the effects of \<^verbatim>\<open>_monitor_and_complete\<close>, and of the command,
  right after the call of \<^verbatim>\<open>monitor_builds\<close>. For a snapshot (a dict, so with distinct
  keys) the five buckets, in the order stopped, building, uploading, succeeded,
  pending, cover the architectures of the snapshot, and every architecture is in
  exactly one of them. The line that is emitted is the \<^verbatim>\<open>; \<close>-joined rendering of
  the buckets that are not empty, in that order, each with its label and its
  architectures as a sorted list without duplicates.
\<close>

theorem classify_partition_progress_line:
  "fst (monitor_loop init snaps) = map (\<lambda>s. EmitProgress (progress_line s) False) snaps \<and>
   prefix ([EmitProgress ''Monitoring build'' False, MonitorBuilds] @
           map (\<lambda>s. EmitProgress (progress_line s) False) (fst (monitor_builds env)))
     (fst (monitor_and_complete env build_id builds)) \<and>
   (snd (run_prepare env args) = Inr (archs, bid) \<and>
    snd (run_submit env args archs bid) = Inr (Inr builds) \<longrightarrow>
      prefix (fst (run_prepare env args) @ fst (run_submit env args archs bid) @
              [EmitProgress ''Monitoring build'' False, MonitorBuilds] @
              map (\<lambda>s. EmitProgress (progress_line s) False) (fst (monitor_builds env)))
        (fst (run env args))) \<and>
   (distinct (map fst states) \<longrightarrow>
     bucket_sets (classify states) =
       [not_building (classify states), building (classify states),
        uploading (classify states), succeeded (classify states),
        pending (classify states)] \<and>
     \<Union> (set (bucket_sets (classify states))) = fst ` set states \<and>
     (\<forall>a \<in> fst ` set states.
        length (filter (\<lambda>B. a \<in> B) (bucket_sets (classify states))) = 1) \<and>
     progress_line states =
       join ''; '' (map render_bucket
         (filter (\<lambda>t. snd (snd t) \<noteq> {}) (ordered_buckets (classify states)))) \<and>
     map fst (ordered_buckets (classify states)) =
       [''Stopped: '', ''Building: '', ''Uploading: '', ''Succeeded: '', ''Pending: ''] \<and>
     (\<forall>B \<in> set (bucket_sets (classify states)).
        sorted (sorted_list_of_set B) \<and> distinct (sorted_list_of_set B) \<and>
        set (sorted_list_of_set B) = B))"
proof -
  have r: "snd (run_prepare env args) = Inr (archs, bid) \<and>
    snd (run_submit env args archs bid) = Inr (Inr builds) \<longrightarrow>
      prefix (fst (run_prepare env args) @ fst (run_submit env args archs bid) @
              [EmitProgress ''Monitoring build'' False, MonitorBuilds] @
              map (\<lambda>s. EmitProgress (progress_line s) False) (fst (monitor_builds env)))
        (fst (run env args))"
    using run_ticks by blast
  from monitor_loop_events [of init snaps] monitor_and_complete_ticks [of env build_id builds] r
    classify_buckets_partition [of states]
  show ?thesis by (intro conjI)
qed

lemma example_ticks:
  "snd (run_prepare example_env example_args) = Inr ([''arm64'', ''amd64''], ''abc123'')"
  "snd (run_submit example_env example_args [''arm64'', ''amd64''] ''abc123'') =
     Inr (Inr [''arm64'', ''amd64''])"
  "map (\<lambda>s. EmitProgress (progress_line s) False) (fst (monitor_builds example_env)) =
     [EmitProgress ''Building: amd64; Pending: arm64'' False,
      EmitProgress ''Succeeded: amd64, arm64'' False]"
  "map (\<lambda>s. EmitProgress (progress_line s) False) [example_states] =
     [EmitProgress ''Stopped: armhf,s390x; Building: amd64; Pending: arm64'' False]"
  by code_simp+

theorem classify_partition_progress_line_witness:
  "fst (monitor_loop [] [example_states]) =
     map (\<lambda>s. EmitProgress (progress_line s) False) [example_states] \<and>
   map (\<lambda>s. EmitProgress (progress_line s) False) [example_states] =
     [EmitProgress ''Stopped: armhf,s390x; Building: amd64; Pending: arm64'' False] \<and>
   snd (run_prepare example_env example_args) = Inr ([''arm64'', ''amd64''], ''abc123'') \<and>
   snd (run_submit example_env example_args [''arm64'', ''amd64''] ''abc123'') =
     Inr (Inr [''arm64'', ''amd64'']) \<and>
   prefix (fst (run_prepare example_env example_args) @
           fst (run_submit example_env example_args [''arm64'', ''amd64''] ''abc123'') @
           [EmitProgress ''Monitoring build'' False, MonitorBuilds] @
           map (\<lambda>s. EmitProgress (progress_line s) False) (fst (monitor_builds example_env)))
     (fst (run example_env example_args)) \<and>
   map (\<lambda>s. EmitProgress (progress_line s) False) (fst (monitor_builds example_env)) =
     [EmitProgress ''Building: amd64; Pending: arm64'' False,
      EmitProgress ''Succeeded: amd64, arm64'' False] \<and>
   distinct (map fst example_states) \<and>
   \<Union> (set (bucket_sets (classify example_states))) = fst ` set example_states \<and>
   length (filter (\<lambda>B. ''arm64'' \<in> B) (bucket_sets (classify example_states))) = 1 \<and>
   length (filter (\<lambda>B. ''s390x'' \<in> B) (bucket_sets (classify example_states))) = 1 \<and>
   progress_line example_states =
     join ''; '' (map render_bucket
       (filter (\<lambda>t. snd (snd t) \<noteq> {}) (ordered_buckets (classify example_states)))) \<and>
   progress_line example_states = ''Stopped: armhf,s390x; Building: amd64; Pending: arm64''"
proof -
  have d: "distinct (map fst example_states)" by (simp add: example_states_def)
  have k: "''arm64'' \<in> fst ` set example_states" "''s390x'' \<in> fst ` set example_states"
    by (simp_all add: example_states_def)
  from classify_partition_progress_line [of "[]" "[example_states]" example_env "Some ''abc123''"
      "[''arm64'', ''amd64'']" example_args "[''arm64'', ''amd64'']" "''abc123''" example_states]
    d k example_states_line example_ticks
  show ?thesis by blast
qed

end
